theory Spec2Isabelle
  imports Main
begin

section \<open>Errors\<close>

text \<open>
  Every \<^verbatim>\<open>raise\<close> of \<^verbatim>\<open>polars/io.py\<close> is a value. The Python raises \<^verbatim>\<open>ValueError\<close> and
  \<^verbatim>\<open>ImportError\<close> only; the constructors below keep the raises apart by their place:
  \<^item> \<open>InvalidInput\<close>: \<^verbatim>\<open>ValueError("no date in bytes")\<close>, line 237;
  \<^item> \<open>InvalidOptionCombination ColumnPrefix\<close>: the \<^verbatim>\<open>ValueError\<close> of lines 244-247;
  \<^item> \<open>InvalidOptionCombination RenameLongerThanSelection\<close>: lines 310-312 (and 321-323);
  \<^item> \<open>InvalidOptionCombination RowCapWithPyarrow\<close>: lines 616-618 and 688-690;
  \<^item> \<open>MissingOptionalDependency\<close>: the \<^verbatim>\<open>ImportError\<close>s;
  \<^item> \<open>IntParseError\<close>: the \<^verbatim>\<open>ValueError\<close> of the builtin \<^verbatim>\<open>int()\<close> on a string that is no
    integer literal;
  \<^item> \<open>IndexError\<close>: a list assignment out of range;
  \<^item> \<open>ClosedFile\<close>: the \<^verbatim>\<open>ValueError\<close> of entering a closed stream as a context;
  \<^item> \<open>CollaboratorError\<close>: whatever a reader, the remote file system or the HTTP fetch
    raises; this layer passes it on unchanged.
\<close>

datatype check = ColumnPrefix | RenameLongerThanSelection | RowCapWithPyarrow

datatype error =
    InvalidInput
  | InvalidOptionCombination check
  | MissingOptionalDependency
  | IntParseError
  | IndexError
  | ClosedFile
  | CollaboratorError nat

section \<open>Python strings and integers\<close>

text \<open>
  A Python \<^verbatim>\<open>str\<close> is modelled as a \<^typ>\<open>string\<close> (code points up to 255), \<^verbatim>\<open>bytes\<close> as a list
  of 8-bit characters, a Python \<^verbatim>\<open>int\<close> as an \<^typ>\<open>int\<close>.
\<close>

type_synonym bytes = "char list"

definition startswith :: "string \<Rightarrow> string \<Rightarrow> bool" where
  "startswith s p \<longleftrightarrow> take (length p) s = p"

definition is_digit :: "char \<Rightarrow> bool" where
  "is_digit c \<longleftrightarrow> 48 \<le> (of_char c :: nat) \<and> (of_char c :: nat) \<le> 57"

definition digit_val :: "char \<Rightarrow> nat" where
  "digit_val c = of_char c - 48"

definition digit_char :: "nat \<Rightarrow> char" where
  "digit_char d = char_of (48 + d)"

text \<open>
  The characters that \<^verbatim>\<open>int()\<close> drops from both ends of a string: the ASCII white space
  (code points 9 to 13 and 32) and, of the code points from 127 on, the Unicode spaces
  (133 and 160 below 256). The separators 28 to 31 are white space for \<^verbatim>\<open>str.isspace\<close> but
  not for \<^verbatim>\<open>int()\<close>: \<^verbatim>\<open>int("\x1c2")\<close> raises \<^verbatim>\<open>ValueError\<close>.
\<close>

definition is_space :: "char \<Rightarrow> bool" where
  "is_space c \<longleftrightarrow>
     (let n = (of_char c :: nat)
      in (9 \<le> n \<and> n \<le> 13) \<or> n = 32 \<or> n = 133 \<or> n = 160)"

definition strip :: "string \<Rightarrow> string" where
  "strip s = rev (dropWhile is_space (rev (dropWhile is_space s)))"

text \<open>
  \<^verbatim>\<open>str(n)\<close> and the \<^verbatim>\<open>{n}\<close> of an f-string, for an integer: decimal, no leading zero, a
  minus sign for a negative number.
\<close>

fun str_nat :: "nat \<Rightarrow> string" where
  "str_nat n = (if n < 10 then [digit_char n] else str_nat (n div 10) @ [digit_char (n mod 10)])"

declare str_nat.simps [simp del]

definition str_int :: "int \<Rightarrow> string" where
  "str_int i = (if i < 0 then CHR ''-'' # str_nat (nat (- i)) else str_nat (nat i))"

text \<open>
  \<^verbatim>\<open>int(s)\<close> for a string, base ten: surrounding white space is dropped, then an optional
  sign, then digits (leading zeros allowed), where single underscores may stand between
  two digits. Anything else raises \<^verbatim>\<open>ValueError\<close>: the empty string, a sign alone, white
  space after the sign or between digits, an underscore at either end or doubled, any
  other character.
\<close>

fun digit_run :: "nat \<Rightarrow> string \<Rightarrow> nat option" where
  "digit_run acc [] = Some acc"
| "digit_run acc [c] = (if is_digit c then Some (10 * acc + digit_val c) else None)"
| "digit_run acc (c # d # cs) =
     (if is_digit c then digit_run (10 * acc + digit_val c) (d # cs)
      else if c = CHR ''_'' \<and> is_digit d then digit_run (10 * acc + digit_val d) cs
      else None)"

definition digit_part :: "string \<Rightarrow> nat option" where
  "digit_part s =
     (case s of
        [] \<Rightarrow> None
      | c # cs \<Rightarrow> if is_digit c then digit_run (digit_val c) cs else None)"

definition py_int :: "string \<Rightarrow> error + int" where
  "py_int s =
     (case strip s of
        [] \<Rightarrow> Inl IntParseError
      | c # cs \<Rightarrow>
          if c = CHR ''-'' then
            (case digit_part cs of None \<Rightarrow> Inl IntParseError | Some n \<Rightarrow> Inr (- int n))
          else if c = CHR ''+'' then
            (case digit_part cs of None \<Rightarrow> Inl IntParseError | Some n \<Rightarrow> Inr (int n))
          else
            (case digit_part (c # cs) of None \<Rightarrow> Inl IntParseError | Some n \<Rightarrow> Inr (int n)))"

text \<open>A list comprehension whose element expression may raise: the first error wins.\<close>

fun map_result :: "('a \<Rightarrow> error + 'b) \<Rightarrow> 'a list \<Rightarrow> error + 'b list" where
  "map_result f [] = Inr []"
| "map_result f (x # xs) =
     (case f x of
        Inl e \<Rightarrow> Inl e
      | Inr y \<Rightarrow> (case map_result f xs of Inl e \<Rightarrow> Inl e | Inr ys \<Rightarrow> Inr (y # ys)))"

section \<open>Tables and the post-read rename\<close>

text \<open>
  Of a pyarrow table and of a \<^verbatim>\<open>DataFrame\<close> this layer touches the column names only; the
  cells are a token that the readers hand over and nobody here looks at.
\<close>

record table =
  column_names :: "string list"
  cells :: nat

record frame =
  columns :: "string list"
  payload :: nat

definition width :: "frame \<Rightarrow> nat" where
  "width df = length (columns df)"

text \<open>
  Modelled from the spec: the setter of \<^verbatim>\<open>DataFrame.columns\<close> lives in \<^verbatim>\<open>polars.internals\<close>,
  which is not part of this file. The spec's data model says of it: "a rename list longer
  than the table's column count is truncated silently to the table's width".
\<close>

definition set_columns :: "frame \<Rightarrow> string list \<Rightarrow> frame" where
  "set_columns df names = df\<lparr>columns := take (width df) names\<rparr>"

text \<open>
  Modelled from the spec: \<^verbatim>\<open>from_arrow\<close> (\<^verbatim>\<open>polars.convert\<close>) and \<^verbatim>\<open>DataFrame._from_arrow\<close>
  are not part of this file either; the spec calls them "the generic Arrow-interchange
  import". The import keeps the columns and their names.
\<close>

definition from_arrow :: "table \<Rightarrow> bool \<Rightarrow> frame" where
  "from_arrow tbl rechunk = \<lparr>columns = column_names tbl, payload = cells tbl\<rparr>"

text \<open>\<^verbatim>\<open>tbl.rename_columns(names)\<close> of pyarrow, called with one name per column.\<close>

definition rename_columns :: "table \<Rightarrow> string list \<Rightarrow> table" where
  "rename_columns tbl names = tbl\<lparr>column_names := names\<rparr>"

text \<open>
  The loop \<^verbatim>\<open>for i, name in enumerate(new_columns): cols[i] = name\<close> of \<^verbatim>\<open>update_columns\<close>;
  a Python list assignment past the end raises \<^verbatim>\<open>IndexError\<close>.
\<close>

fun assign_names :: "nat \<Rightarrow> string list \<Rightarrow> string list \<Rightarrow> error + string list" where
  "assign_names i [] cols = Inr cols"
| "assign_names i (name # rest) cols =
     (if i < length cols then assign_names (Suc i) rest (cols[i := name]) else Inl IndexError)"

definition update_columns :: "frame \<Rightarrow> string list \<Rightarrow> error + frame" where
  "update_columns df new_columns =
     (if width df > length new_columns then
        (case assign_names 0 new_columns (columns df) of
           Inl e \<Rightarrow> Inl e
         | Inr cols \<Rightarrow> Inr (set_columns df cols))
      else Inr (set_columns df new_columns))"

section \<open>Input descriptors, options and collaborators\<close>

text \<open>
  Keyword dictionaries that are only handed on (\<^verbatim>\<open>storage_options\<close>, \<^verbatim>\<open>**kwargs\<close>) are lists of
  pairs. An object that has an identity for the caller (an open stream, a \<^verbatim>\<open>BytesIO\<close>) is
  a handle, a number; a \<^verbatim>\<open>StringIO\<close> is the text its \<^verbatim>\<open>read()\<close> returns.
\<close>

type_synonym options = "(string \<times> string) list"

datatype file_arg =
    StringIO string
  | BytesIO nat
  | PathObj string
  | Str string
  | StrList "string list"
  | Bytes bytes
  | BinaryIO nat

text \<open>
  What the body of a \<^verbatim>\<open>with _prepare_file_arg(...) as data\<close> receives: the caller's own
  object, a buffer that the resolver has built, or streams that \<^verbatim>\<open>fsspec\<close> has opened.
\<close>

datatype source =
    Given file_arg
  | Buffer bytes
  | RemoteFile string
  | RemoteFiles "string list"

text \<open>The classes of \<^verbatim>\<open>polars.datatypes\<close>; this layer only compares and forwards them.\<close>

datatype data_type =
  Int32 | Int64 | UInt32 | UInt64 | Float32 | Float64 | Boolean | Utf8 | Date | Datetime

datatype dtypes_arg =
    DtypeDict "(string \<times> data_type) list"
  | DtypeList "data_type list"

datatype null_values_arg =
    NullStr string
  | NullList "string list"
  | NullDict "(string \<times> string) list"

datatype col_sel = ColIdx "int list" | ColNames "string list"

text \<open>
  The parameters of \<^verbatim>\<open>read_csv\<close>, in the order of the signature. The parameter \<^verbatim>\<open>file\<close> is
  the field \<open>file_in\<close> and the parameter \<^verbatim>\<open>columns\<close> the field \<open>columns_arg\<close>: \<open>file\<close> is a
  reserved word here and \<open>columns\<close> is the attribute of a \<^verbatim>\<open>DataFrame\<close>.
\<close>

record csv_args =
  file_in :: file_arg
  infer_schema_length :: "int option"
  batch_size :: int
  has_header :: bool
  ignore_errors :: bool
  n_rows :: "int option"
  skip_rows :: int
  projection :: "int list option"
  sep :: string
  columns_arg :: "string list option"
  rechunk :: bool
  encoding :: string
  n_threads :: "int option"
  dtypes :: "dtypes_arg option"
  new_columns :: "string list option"
  use_pyarrow :: bool
  low_memory :: bool
  comment_char :: "string option"
  quote_char :: "string option"
  storage_options :: "options option"
  null_values :: "null_values_arg option"
  parse_dates :: bool

text \<open>The keyword arguments of the call \<^verbatim>\<open>DataFrame.read_csv(...)\<close>, lines 362-382.\<close>

record native_csv_args =
  rd_file :: source
  rd_infer_schema_length :: "int option"
  rd_batch_size :: int
  rd_has_header :: bool
  rd_ignore_errors :: bool
  rd_n_rows :: "int option"
  rd_skip_rows :: int
  rd_projection :: "int list option"
  rd_sep :: string
  rd_columns :: "string list option"
  rd_rechunk :: bool
  rd_encoding :: string
  rd_n_threads :: "int option"
  rd_dtypes :: "dtypes_arg option"
  rd_low_memory :: bool
  rd_comment_char :: "string option"
  rd_quote_char :: "string option"
  rd_null_values :: "null_values_arg option"
  rd_parse_dates :: bool

text \<open>
  The arguments of the call \<^verbatim>\<open>pa.csv.read_csv(...)\<close>, lines 279-290 (\<^verbatim>\<open>column_types\<close> is
  always \<^verbatim>\<open>None\<close> there).
\<close>

record pa_csv_args =
  pa_data :: source
  pa_skip_rows :: int
  autogenerate_column_names :: bool
  delimiter :: string
  include_columns :: "string list option"
  include_missing_columns :: bool

text \<open>
  The parameters of \<^verbatim>\<open>read_ipc\<close>, each with the prefix \<open>b_\<close> that keeps it apart from the
  parameter of \<^verbatim>\<open>read_csv\<close> with the same name; \<^verbatim>\<open>read_parquet\<close> has the same parameters (its
  first one is called \<^verbatim>\<open>source\<close>) and \<^verbatim>\<open>**kwargs\<close>.
\<close>

record ipc_args =
  b_file :: file_arg
  b_columns :: "col_sel option"
  b_projection :: "int list option"
  b_n_rows :: "int option"
  b_use_pyarrow :: bool
  b_memory_map :: bool
  b_storage_options :: "options option"

record parquet_args = ipc_args +
  kwargs :: options

text \<open>
  The calls that leave this layer, in the order they are made: the trace is what a mock
  of each collaborator would have counted.
\<close>

datatype event =
    Prepare file_arg options
  | Urlopen string
  | FsEnter "string list" options
  | FsExit "string list"
  | PaCsvRead pa_csv_args
  | NativeReadCsv native_csv_args
  | PaFeatherRead source bool "col_sel option"
  | NativeReadIpc source "col_sel option" "int list option" "int option"
  | PaParquetRead source bool "col_sel option" options
  | NativeReadParquet source "col_sel option" "int list option" "int option"

text \<open>
  The environment of a call: the module's availability flags and the collaborators, each
  a function from its arguments to what it returns (\<open>Inr\<close>) or to the exception it raises
  (\<open>Inl\<close>, a number that stands for the exception).
\<close>

record env =
  PYARROW_AVAILABLE :: bool
  WITH_FSSPEC :: bool
  protocol :: "string \<Rightarrow> string"
  urlopen :: "string \<Rightarrow> nat + bytes"
  fs_enter :: "string list \<Rightarrow> options \<Rightarrow> nat option"
  pa_csv_read_csv :: "pa_csv_args \<Rightarrow> nat + table"
  DataFrame_read_csv :: "native_csv_args \<Rightarrow> nat + frame"
  pa_feather_read_table :: "source \<Rightarrow> bool \<Rightarrow> col_sel option \<Rightarrow> nat + table"
  DataFrame_read_ipc ::
    "source \<Rightarrow> col_sel option \<Rightarrow> int list option \<Rightarrow> int option \<Rightarrow> nat + frame"
  pa_parquet_read_table ::
    "source \<Rightarrow> bool \<Rightarrow> col_sel option \<Rightarrow> options \<Rightarrow> nat + table"
  DataFrame_read_parquet ::
    "source \<Rightarrow> col_sel option \<Rightarrow> int list option \<Rightarrow> int option \<Rightarrow> nat + frame"

text \<open>An exception of a collaborator passes through this layer as it is.\<close>

definition raised :: "nat + 'a \<Rightarrow> error + 'a" where
  "raised r = (case r of Inl n \<Rightarrow> Inl (CollaboratorError n) | Inr x \<Rightarrow> Inr x)"

text \<open>The part of the world a call can change: which handles are closed, and the trace.\<close>

record world =
  closed :: "nat set"
  trace :: "event list"

definition log :: "event \<Rightarrow> world \<Rightarrow> world" where
  "log e w = w\<lparr>trace := trace w @ [e]\<rparr>"




text \<open>Python truthiness of an optional list, and the list it stands for.\<close>

definition listify :: "'a list option \<Rightarrow> 'a list" where
  "listify x = (case x of None \<Rightarrow> [] | Some xs \<Rightarrow> xs)"

definition truthy :: "'a list option \<Rightarrow> bool" where
  "truthy x \<longleftrightarrow> listify x \<noteq> []"

definition truthy_int :: "int option \<Rightarrow> bool" where
  "truthy_int x \<longleftrightarrow> (case x of None \<Rightarrow> False | Some n \<Rightarrow> n \<noteq> 0)"

definition truthy_sel :: "col_sel option \<Rightarrow> bool" where
  "truthy_sel x \<longleftrightarrow>
     (case x of None \<Rightarrow> False | Some (ColIdx is) \<Rightarrow> is \<noteq> [] | Some (ColNames ns) \<Rightarrow> ns \<noteq> [])"

section \<open>The source resolver\<close>

text \<open>\<^verbatim>\<open>text.encode("utf8")\<close> for code points below 256.\<close>

definition encode_utf8 :: "string \<Rightarrow> bytes" where
  "encode_utf8 s =
     concat (map (\<lambda>c. let n = (of_char c :: nat)
                      in if n < 128 then [c] else [char_of (192 + n div 64), char_of (128 + n mod 64)]) s)"

text \<open>
  What \<^verbatim>\<open>_prepare_file_arg\<close> returns is used as a context manager:
  \<^item> \<open>ManagedFile x\<close> is \<^verbatim>\<open>managed_file(x)\<close>, the helper of lines 98-103: it yields \<open>x\<close> and
    does nothing when it is left;
  \<^item> \<open>SelfBytesIO h\<close> is the caller's \<^verbatim>\<open>BytesIO\<close> itself, returned by line 108. A stream of
    \<^verbatim>\<open>io\<close> is its own context manager: entering it checks that it is open and yields it,
    leaving it calls \<^verbatim>\<open>close()\<close>;
  \<^item> \<open>NewBytesIO b\<close> is a \<^verbatim>\<open>BytesIO\<close> that the resolver has built (lines 58 and 106);
    closing it concerns no object of the caller;
  \<^item> \<open>FsspecOpen\<close> and \<open>FsspecOpenFiles\<close> are what \<^verbatim>\<open>fsspec.open\<close> and \<^verbatim>\<open>fsspec.open_files\<close>
    return; the streams are opened on entry and closed on exit, by \<^verbatim>\<open>fsspec\<close>.
\<close>

datatype ctx_manager =
    ManagedFile file_arg
  | SelfBytesIO nat
  | NewBytesIO bytes
  | FsspecOpen string options
  | FsspecOpenFiles "string list" options

definition process_http_file :: "env \<Rightarrow> string \<Rightarrow> world \<Rightarrow> (error + ctx_manager) \<times> world" where
  "process_http_file E path w =
     (case urlopen E path of
        Inl n \<Rightarrow> (Inl (CollaboratorError n), log (Urlopen path) w)
      | Inr b \<Rightarrow> (Inr (NewBytesIO b), log (Urlopen path) w))"

text \<open>
  \<^verbatim>\<open>_prepare_file_arg\<close>, lines 105-123, branch by branch (a name cannot begin with an
  underscore here). The call itself is the first entry that it adds to the trace.
\<close>

definition prepare_file_arg ::
  "env \<Rightarrow> file_arg \<Rightarrow> options \<Rightarrow> world \<Rightarrow> (error + ctx_manager) \<times> world" where
  "prepare_file_arg E f kw w0 =
     (let w = log (Prepare f kw) w0 in
      case f of
        StringIO t \<Rightarrow> (Inr (NewBytesIO (encode_utf8 t)), w)
      | BytesIO h \<Rightarrow> (Inr (SelfBytesIO h), w)
      | PathObj p \<Rightarrow> (Inr (ManagedFile (Str p)), w)
      | Str s \<Rightarrow>
          if WITH_FSSPEC E then
            (if protocol E s = ''file'' then (Inr (ManagedFile f), w)
             else (Inr (FsspecOpen s kw), w))
          else if startswith s ''http'' then process_http_file E s w
          else (Inr (ManagedFile f), w)
      | StrList fs \<Rightarrow>
          if fs \<noteq> [] \<and> WITH_FSSPEC E then
            (if list_all (\<lambda>p. protocol E p = ''file'') fs then (Inr (ManagedFile f), w)
             else (Inr (FsspecOpenFiles fs kw), w))
          else (Inr (ManagedFile f), w)
      | Bytes b \<Rightarrow> (Inr (ManagedFile f), w)
      | BinaryIO h \<Rightarrow> (Inr (ManagedFile f), w))"

text \<open>Entering and leaving a context (\<^verbatim>\<open>__enter__\<close> and \<^verbatim>\<open>__exit__\<close>).\<close>

definition enter :: "env \<Rightarrow> ctx_manager \<Rightarrow> world \<Rightarrow> (error + source) \<times> world" where
  "enter E c w =
     (case c of
        ManagedFile f \<Rightarrow> (Inr (Given f), w)
      | SelfBytesIO h \<Rightarrow>
          if h \<in> closed w then (Inl ClosedFile, w) else (Inr (Given (BytesIO h)), w)
      | NewBytesIO b \<Rightarrow> (Inr (Buffer b), w)
      | FsspecOpen p kw \<Rightarrow>
          (case fs_enter E [p] kw of
             Some n \<Rightarrow> (Inl (CollaboratorError n), log (FsEnter [p] kw) w)
           | None \<Rightarrow> (Inr (RemoteFile p), log (FsEnter [p] kw) w))
      | FsspecOpenFiles ps kw \<Rightarrow>
          (case fs_enter E ps kw of
             Some n \<Rightarrow> (Inl (CollaboratorError n), log (FsEnter ps kw) w)
           | None \<Rightarrow> (Inr (RemoteFiles ps), log (FsEnter ps kw) w)))"

definition leave :: "ctx_manager \<Rightarrow> world \<Rightarrow> world" where
  "leave c w =
     (case c of
        ManagedFile f \<Rightarrow> w
      | SelfBytesIO h \<Rightarrow> w\<lparr>closed := insert h (closed w)\<rparr>
      | NewBytesIO b \<Rightarrow> w
      | FsspecOpen p kw \<Rightarrow> log (FsExit [p]) w
      | FsspecOpenFiles ps kw \<Rightarrow> log (FsExit ps) w)"

text \<open>
  \<^verbatim>\<open>with _prepare_file_arg(file, **storage_options) as data: body\<close>. First the source is
  resolved (\<open>resolve\<close>: the call of \<^verbatim>\<open>_prepare_file_arg\<close> and the entry into what it
  returns), then the body runs, and the context is left whether the body returns or raises.
\<close>

definition resolve ::
  "env \<Rightarrow> file_arg \<Rightarrow> options \<Rightarrow> world \<Rightarrow> (error + ctx_manager \<times> source) \<times> world" where
  "resolve E f kw w0 =
     (case prepare_file_arg E f kw w0 of
        (Inl e, w1) \<Rightarrow> (Inl e, w1)
      | (Inr c, w1) \<Rightarrow>
          (case enter E c w1 of
             (Inl e, w2) \<Rightarrow> (Inl e, w2)
           | (Inr data, w2) \<Rightarrow> (Inr (c, data), w2)))"

definition with_file ::
  "env \<Rightarrow> file_arg \<Rightarrow> options \<Rightarrow> (source \<Rightarrow> world \<Rightarrow> (error + 'a) \<times> world) \<Rightarrow> world
     \<Rightarrow> (error + 'a) \<times> world" where
  "with_file E f kw body w0 =
     (case resolve E f kw w0 of
        (Inl e, w2) \<Rightarrow> (Inl e, w2)
      | (Inr (c, data), w2) \<Rightarrow> (case body data w2 of (r, w3) \<Rightarrow> (r, leave c w3)))"

section \<open>Dictionaries\<close>

text \<open>
  A Python \<^verbatim>\<open>dict\<close> is the list of its items in insertion order, with distinct keys.
  Storing under a key that is present replaces the value and keeps the place.
\<close>

definition dict_set :: "('k \<times> 'v) list \<Rightarrow> 'k \<Rightarrow> 'v \<Rightarrow> ('k \<times> 'v) list" where
  "dict_set d k v =
     (if k \<in> fst ` set d then map (\<lambda>(k', v'). if k' = k then (k', v) else (k', v')) d
      else d @ [(k, v)])"

definition dict_build :: "('k \<times> 'v) list \<Rightarrow> ('k \<times> 'v) list" where
  "dict_build items = foldl (\<lambda>d (k, v). dict_set d k v) [] items"

definition dict_get :: "('k \<times> 'v) list \<Rightarrow> 'k \<Rightarrow> 'v \<Rightarrow> 'v" where
  "dict_get d k dflt = (case map_of d k of None \<Rightarrow> dflt | Some v \<Rightarrow> v)"

section \<open>The delimited-text reader\<close>

text \<open>The loop of lines 242-247 over the requested column names.\<close>

fun check_columns :: "string list \<Rightarrow> error + unit" where
  "check_columns [] = Inr ()"
| "check_columns (column # rest) =
     (if \<not> startswith column ''column_'' then Inl (InvalidOptionCombination ColumnPrefix)
      else check_columns rest)"

text \<open>
  Line 270, \<^verbatim>\<open>f"f{int(column[7:]) - 1}"\<close>, and line 295, \<^verbatim>\<open>f"column_{int(column[1:]) + 1}"\<close>:
  the translation between the synthetic names of the native reader and the positional
  names of pyarrow.
\<close>

definition to_pyarrow_name :: "string \<Rightarrow> error + string" where
  "to_pyarrow_name column =
     (case py_int (drop 7 column) of Inl e \<Rightarrow> Inl e | Inr k \<Rightarrow> Inr (''f'' @ str_int (k - 1)))"

definition from_pyarrow_name :: "string \<Rightarrow> error + string" where
  "from_pyarrow_name column =
     (case py_int (drop 1 column) of
        Inl e \<Rightarrow> Inl e
      | Inr j \<Rightarrow> Inr (''column_'' @ str_int (j + 1)))"

text \<open>Lines 264-276: the \<^verbatim>\<open>include_columns\<close> handed to pyarrow.\<close>

definition csv_include_columns :: "csv_args \<Rightarrow> error + string list option" where
  "csv_include_columns a =
     (case (if truthy (columns_arg a) then
              (if \<not> has_header a then
                 (case map_result to_pyarrow_name (listify (columns_arg a)) of
                    Inl e \<Rightarrow> Inl e
                  | Inr fs \<Rightarrow> Inr (Some fs))
               else Inr (columns_arg a))
            else Inr None) of
        Inl e \<Rightarrow> Inl e
      | Inr inc \<Rightarrow>
          if \<not> truthy (columns_arg a) \<and> truthy (projection a) then
            Inr (Some (map (\<lambda>column_idx. ''f'' @ str_int column_idx) (listify (projection a))))
          else Inr inc)"

text \<open>The arguments of the two reader calls, lines 279-290 and 362-382.\<close>

definition pa_csv_call :: "csv_args \<Rightarrow> source \<Rightarrow> string list option \<Rightarrow> pa_csv_args" where
  "pa_csv_call a data inc =
     \<lparr>pa_data = data, pa_skip_rows = skip_rows a,
      autogenerate_column_names = (\<not> has_header a), delimiter = sep a,
      include_columns = inc, include_missing_columns = ignore_errors a\<rparr>"

definition native_csv_call ::
  "csv_args \<Rightarrow> source \<Rightarrow> dtypes_arg option \<Rightarrow> native_csv_args" where
  "native_csv_call a data dt =
     \<lparr>rd_file = data, rd_infer_schema_length = infer_schema_length a,
      rd_batch_size = batch_size a, rd_has_header = has_header a,
      rd_ignore_errors = ignore_errors a, rd_n_rows = n_rows a,
      rd_skip_rows = skip_rows a, rd_projection = projection a, rd_sep = sep a,
      rd_columns = columns_arg a, rd_rechunk = rechunk a, rd_encoding = encoding a,
      rd_n_threads = n_threads a, rd_dtypes = dt, rd_low_memory = low_memory a,
      rd_comment_char = comment_char a, rd_quote_char = quote_char a,
      rd_null_values = null_values a, rd_parse_dates = parse_dates a\<rparr>"

text \<open>Lines 264-301: the read through pyarrow.\<close>

definition read_csv_pyarrow :: "env \<Rightarrow> csv_args \<Rightarrow> world \<Rightarrow> (error + frame) \<times> world" where
  "read_csv_pyarrow E a w =
     (case csv_include_columns a of
        Inl e \<Rightarrow> (Inl e, w)
      | Inr inc \<Rightarrow>
          (case with_file E (file_in a) (listify (storage_options a))
                  (\<lambda>data w'. (raised (pa_csv_read_csv E (pa_csv_call a data inc)),
                              log (PaCsvRead (pa_csv_call a data inc)) w')) w of
             (Inl e, w1) \<Rightarrow> (Inl e, w1)
           | (Inr tbl, w1) \<Rightarrow>
               (case (if \<not> has_header a then
                        (case map_result from_pyarrow_name (column_names tbl) of
                           Inl e \<Rightarrow> Inl e
                         | Inr names \<Rightarrow> Inr (rename_columns tbl names))
                      else Inr tbl) of
                  Inl e \<Rightarrow> (Inl e, w1)
                | Inr tbl' \<Rightarrow>
                    if truthy (new_columns a) then
                      (update_columns (from_arrow tbl' (rechunk a)) (listify (new_columns a)), w1)
                    else (Inr (from_arrow tbl' (rechunk a)), w1))))"

text \<open>
  Lines 304-348: the names the renamed columns have in the file, where they are known,
  together with the dtypes as the header branch may have rewritten them.
\<close>

definition current_columns ::
  "csv_args \<Rightarrow> string list \<Rightarrow> (string \<times> data_type) list
     \<Rightarrow> error + (string list option \<times> dtypes_arg)" where
  "current_columns a new d =
     (if truthy (columns_arg a) then
        (if length (listify (columns_arg a)) < length new then
           Inl (InvalidOptionCombination RenameLongerThanSelection)
         else Inr (Some (take (length new) (listify (columns_arg a))), DtypeDict d))
      else if \<not> has_header a then
        (if truthy (projection a) then
           (if truthy (columns_arg a) \<and> length (listify (columns_arg a)) < length new then
              Inl (InvalidOptionCombination RenameLongerThanSelection)
            else Inr (Some (map (\<lambda>column_idx. ''column_'' @ str_int (column_idx + 1))
                              (listify (projection a))), DtypeDict d))
         else Inr (Some (map (\<lambda>column_idx. ''column_'' @ str_int (int column_idx))
                           [1 ..< length new + 1]), DtypeDict d))
      else
        (if length d \<le> length new then
           (let dtype_list = List.map_filter (map_of d) (take (length d) new)
            in if length dtype_list = length d then Inr (None, DtypeList dtype_list)
               else Inr (None, DtypeDict d))
         else Inr (None, DtypeDict d)))"

text \<open>Lines 351-359: the keys of the dtypes, from the new names to the current ones.\<close>

definition rekey ::
  "string list \<Rightarrow> string list \<Rightarrow> (string \<times> data_type) list \<Rightarrow> (string \<times> data_type) list" where
  "rekey new cur d =
     (let new_to_current = dict_build (zip new cur)
      in dict_build (map (\<lambda>(column_name, column_dtype).
                            (dict_get new_to_current column_name column_name, column_dtype)) d))"

text \<open>Lines 303-359: the dtypes that the native reader receives.\<close>

definition reconcile :: "csv_args \<Rightarrow> error + dtypes_arg option" where
  "reconcile a =
     (case dtypes a of
        Some (DtypeDict d) \<Rightarrow>
          if truthy (new_columns a) \<and> d \<noteq> [] then
            (case current_columns a (listify (new_columns a)) d of
               Inl e \<Rightarrow> Inl e
             | Inr (Some cur, DtypeDict d') \<Rightarrow>
                 if cur \<noteq> [] then Inr (Some (DtypeDict (rekey (listify (new_columns a)) cur d')))
                 else Inr (Some (DtypeDict d'))
             | Inr (_, dt) \<Rightarrow> Inr (Some dt))
          else Inr (dtypes a)
      | _ \<Rightarrow> Inr (dtypes a))"

text \<open>Lines 303-386: the read through the native reader.\<close>

definition read_csv_native :: "env \<Rightarrow> csv_args \<Rightarrow> world \<Rightarrow> (error + frame) \<times> world" where
  "read_csv_native E a w =
     (case reconcile a of
        Inl e \<Rightarrow> (Inl e, w)
      | Inr dt \<Rightarrow>
          (case with_file E (file_in a) (listify (storage_options a))
                  (\<lambda>data w'. (raised (DataFrame_read_csv E (native_csv_call a data dt)),
                              log (NativeReadCsv (native_csv_call a data dt)) w')) w of
             (Inl e, w1) \<Rightarrow> (Inl e, w1)
           | (Inr df, w1) \<Rightarrow>
               if truthy (new_columns a) then (update_columns df (listify (new_columns a)), w1)
               else (Inr df, w1)))"

text \<open>
  \<^verbatim>\<open>read_csv\<close>, lines 234-263. Line 234, \<^verbatim>\<open>dtypes = kwargs.get("dtypes", dtypes)\<close>, changes
  nothing: \<^verbatim>\<open>dtypes\<close> is a named parameter, so \<^verbatim>\<open>kwargs\<close> never holds that key.
\<close>

definition read_csv :: "env \<Rightarrow> csv_args \<Rightarrow> world \<Rightarrow> (error + frame) \<times> world" where
  "read_csv E a w =
     (if file_in a = Bytes [] then (Inl InvalidInput, w)
      else
        (case (if truthy (columns_arg a) \<and> \<not> has_header a
               then check_columns (listify (columns_arg a)) else Inr ()) of
           Inl e \<Rightarrow> (Inl e, w)
         | Inr _ \<Rightarrow>
             if use_pyarrow a \<and> \<not> PYARROW_AVAILABLE E then (Inl MissingOptionalDependency, w)
             else if use_pyarrow a \<and> dtypes a = None \<and> n_rows a = None \<and> n_threads a = None
                     \<and> encoding a = ''utf8'' \<and> \<not> low_memory a \<and> null_values a = None
                     \<and> parse_dates a
             then read_csv_pyarrow E a w
             else read_csv_native E a w))"

section \<open>The columnar readers\<close>

text \<open>
  \<^verbatim>\<open>read_ipc\<close>, lines 614-643. \<^verbatim>\<open>if n_rows:\<close> is Python truthiness: \<^verbatim>\<open>None\<close> and \<^verbatim>\<open>0\<close> are both
  false. The check for pyarrow is made inside the \<^verbatim>\<open>with\<close>, after the source is resolved.
  \<open>pa_selector\<close> is \<^verbatim>\<open>columns if columns else projection\<close> (lines 630 and 705),
  \<open>native_projection\<close> the \<^verbatim>\<open>projection\<close> after lines 634-636, and \<open>import_table\<close>
  the import of the table that pyarrow has returned (lines 632 and 701).
\<close>

definition pa_selector :: "'x ipc_args_scheme \<Rightarrow> col_sel option" where
  "pa_selector a =
     (if truthy_sel (b_columns a) then b_columns a else map_option ColIdx (b_projection a))"

definition native_projection :: "'x ipc_args_scheme \<Rightarrow> int list option" where
  "native_projection a = (if truthy_sel (b_columns a) then None else b_projection a)"

definition import_table :: "nat + table \<Rightarrow> error + frame" where
  "import_table r =
     (case r of Inl n \<Rightarrow> Inl (CollaboratorError n) | Inr tbl \<Rightarrow> Inr (from_arrow tbl True))"

definition read_ipc :: "env \<Rightarrow> ipc_args \<Rightarrow> world \<Rightarrow> (error + frame) \<times> world" where
  "read_ipc E a w =
     (if b_use_pyarrow a \<and> truthy_int (b_n_rows a) then
        (Inl (InvalidOptionCombination RowCapWithPyarrow), w)
      else
        with_file E (b_file a) (listify (b_storage_options a))
          (\<lambda>data w'.
             if b_use_pyarrow a then
               (if \<not> PYARROW_AVAILABLE E then (Inl MissingOptionalDependency, w')
                else
                  (import_table (pa_feather_read_table E data (b_memory_map a) (pa_selector a)),
                   log (PaFeatherRead data (b_memory_map a) (pa_selector a)) w'))
             else
               (raised (DataFrame_read_ipc E data (b_columns a) (native_projection a)
                          (b_n_rows a)),
                log (NativeReadIpc data (b_columns a) (native_projection a) (b_n_rows a)) w'))
          w)"

text \<open>\<^verbatim>\<open>read_parquet\<close>, lines 686-719: the same steps, with \<^verbatim>\<open>**kwargs\<close> handed to pyarrow.\<close>

definition read_parquet :: "env \<Rightarrow> parquet_args \<Rightarrow> world \<Rightarrow> (error + frame) \<times> world" where
  "read_parquet E a w =
     (if b_use_pyarrow a \<and> truthy_int (b_n_rows a) then
        (Inl (InvalidOptionCombination RowCapWithPyarrow), w)
      else
        with_file E (b_file a) (listify (b_storage_options a))
          (\<lambda>source_prep w'.
             if b_use_pyarrow a then
               (if \<not> PYARROW_AVAILABLE E then (Inl MissingOptionalDependency, w')
                else
                  (import_table
                     (pa_parquet_read_table E source_prep (b_memory_map a) (pa_selector a)
                        (kwargs a)),
                   log (PaParquetRead source_prep (b_memory_map a) (pa_selector a) (kwargs a))
                     w'))
             else
               (raised (DataFrame_read_parquet E source_prep (b_columns a)
                          (native_projection a) (b_n_rows a)),
                log (NativeReadParquet source_prep (b_columns a) (native_projection a)
                       (b_n_rows a)) w'))
          w)"

section \<open>Synthetic column names\<close>

text \<open>
  The names of a header-less table of \<open>n\<close> columns, as the docstring of \<^verbatim>\<open>read_csv\<close> gives
  them (lines 178-179): \<^verbatim>\<open>column_x\<close>, "\<^verbatim>\<open>x\<close> being an enumeration over every column in the
  dataset starting at 1".
\<close>

definition synthetic_names :: "nat \<Rightarrow> string list" where
  "synthetic_names n = map (\<lambda>k. ''column_'' @ str_int (int k)) [1 ..< n + 1]"

section \<open>Default arguments and a sample environment\<close>

text \<open>The defaults of the signatures (lines 136-160, 580-588, 646-655).\<close>

definition csv_defaults :: "file_arg \<Rightarrow> csv_args" where
  "csv_defaults f =
     \<lparr>file_in = f, infer_schema_length = Some 100, batch_size = 8192, has_header = True,
      ignore_errors = False, n_rows = None, skip_rows = 0, projection = None, sep = '','',
      columns_arg = None, rechunk = True, encoding = ''utf8'', n_threads = None,
      dtypes = None, new_columns = None, use_pyarrow = False, low_memory = False,
      comment_char = None, quote_char = Some [CHR 0x22], storage_options = None,
      null_values = None, parse_dates = False\<rparr>"

definition ipc_defaults :: "env \<Rightarrow> file_arg \<Rightarrow> ipc_args" where
  "ipc_defaults E f =
     \<lparr>b_file = f, b_columns = None, b_projection = None, b_n_rows = None,
      b_use_pyarrow = PYARROW_AVAILABLE E, b_memory_map = True, b_storage_options = None\<rparr>"

definition parquet_defaults :: "env \<Rightarrow> file_arg \<Rightarrow> parquet_args" where
  "parquet_defaults E f =
     \<lparr>b_file = f, b_columns = None, b_projection = None, b_n_rows = None,
      b_use_pyarrow = PYARROW_AVAILABLE E, b_memory_map = True, b_storage_options = None,
      kwargs = []\<rparr>"

text \<open>
  A sample environment for concrete runs: pyarrow is installed, \<^verbatim>\<open>fsspec\<close> is not, and every
  source holds the same table of three columns \<^verbatim>\<open>a\<close>, \<^verbatim>\<open>b\<close>, \<^verbatim>\<open>c\<close>. Without a header the
  native reader names the columns \<^verbatim>\<open>column_1\<close>, ... and pyarrow \<^verbatim>\<open>f0\<close>, ...; a selection
  returns the selected columns in the order asked for.
\<close>

definition sample_pa_csv :: "pa_csv_args \<Rightarrow> nat + table" where
  "sample_pa_csv args =
     (let all = (if autogenerate_column_names args then [''f0'', ''f1'', ''f2'']
                 else [''a'', ''b'', ''c''])
      in case include_columns args of
           None \<Rightarrow> Inr \<lparr>column_names = all, cells = 7\<rparr>
         | Some cs \<Rightarrow>
             if list_all (\<lambda>c. c \<in> set all) cs \<or> include_missing_columns args
             then Inr \<lparr>column_names = cs, cells = 7\<rparr>
             else Inl 1)"

definition sample_native_csv :: "native_csv_args \<Rightarrow> nat + frame" where
  "sample_native_csv args =
     (let all = (if rd_has_header args then [''a'', ''b'', ''c'']
                 else [''column_1'', ''column_2'', ''column_3''])
      in case rd_columns args of
           None \<Rightarrow> Inr \<lparr>columns = all, payload = 7\<rparr>
         | Some cs \<Rightarrow>
             if cs = [] then Inr \<lparr>columns = all, payload = 7\<rparr>
             else if list_all (\<lambda>c. c \<in> set all) cs then Inr \<lparr>columns = cs, payload = 7\<rparr>
             else Inl 2)"

definition sample_env :: env where
  "sample_env =
     \<lparr>PYARROW_AVAILABLE = True, WITH_FSSPEC = False,
      protocol = (\<lambda>path. ''file''),
      urlopen = (\<lambda>path. Inl 3),
      fs_enter = (\<lambda>paths kw. None),
      pa_csv_read_csv = sample_pa_csv,
      DataFrame_read_csv = sample_native_csv,
      pa_feather_read_table = (\<lambda>data mm cols. Inr \<lparr>column_names = [''a'', ''b'', ''c''], cells = 7\<rparr>),
      DataFrame_read_ipc = (\<lambda>data cols proj n. Inr \<lparr>columns = [''a'', ''b'', ''c''], payload = 7\<rparr>),
      pa_parquet_read_table =
        (\<lambda>data mm cols kw. Inr \<lparr>column_names = [''a'', ''b'', ''c''], cells = 7\<rparr>),
      DataFrame_read_parquet =
        (\<lambda>data cols proj n. Inr \<lparr>columns = [''a'', ''b'', ''c''], payload = 7\<rparr>)\<rparr>"

definition world0 :: world where
  "world0 = \<lparr>closed = {}, trace = []\<rparr>"

section \<open>Decimal numerals and the positional names of pyarrow\<close>

text \<open>
  Printing an integer and reading it back gives the integer: \<^verbatim>\<open>int(str(i)) == i\<close>. The
  translations of lines 270 and 295 rest on it.
\<close>

lemma is_digit_digit_char: "d < 10 \<Longrightarrow> is_digit (digit_char d)"
  by (simp add: is_digit_def digit_char_def)

lemma digit_val_digit_char: "d < 10 \<Longrightarrow> digit_val (digit_char d) = d"
  by (simp add: digit_val_def digit_char_def)

lemma not_space_digit: "is_digit c \<Longrightarrow> \<not> is_space c"
  by (auto simp: is_digit_def is_space_def Let_def)

lemma not_sign_digit: "is_digit c \<Longrightarrow> c \<noteq> CHR ''-'' \<and> c \<noteq> CHR ''+''"
  by (auto simp: is_digit_def)

lemma str_nat_digits: "list_all is_digit (str_nat n)"
proof (induction n rule: str_nat.induct)
  case (1 n)
  show ?case
  proof (cases "n < 10")
    case True
    then show ?thesis by (subst str_nat.simps) (simp add: is_digit_digit_char)
  next
    case False
    with 1 show ?thesis by (subst str_nat.simps) (simp add: is_digit_digit_char)
  qed
qed

lemma str_nat_nonempty: "str_nat n \<noteq> []"
  by (subst str_nat.simps) simp

lemma digit_run_digits:
  "list_all is_digit s \<Longrightarrow> digit_run acc s = Some (foldl (\<lambda>a c. 10 * a + digit_val c) acc s)"
  by (induction acc s rule: digit_run.induct) auto

lemma foldl_str_nat: "foldl (\<lambda>a c. 10 * a + digit_val c) 0 (str_nat n) = n"
proof (induction n rule: str_nat.induct)
  case (1 n)
  show ?case
  proof (cases "n < 10")
    case True
    then show ?thesis by (subst str_nat.simps) (simp add: digit_val_digit_char)
  next
    case False
    with 1 show ?thesis by (subst str_nat.simps) (simp add: digit_val_digit_char)
  qed
qed

lemma digit_part_str_nat: "digit_part (str_nat n) = Some n"
proof (cases "str_nat n")
  case Nil
  then show ?thesis using str_nat_nonempty by simp
next
  case (Cons c cs)
  have d: "is_digit c" "list_all is_digit cs" using str_nat_digits [of n] Cons by simp_all
  have "foldl (\<lambda>a c. 10 * a + digit_val c) 0 (c # cs) = n" using foldl_str_nat [of n] Cons by simp
  then show ?thesis using Cons d by (simp add: digit_part_def digit_run_digits)
qed

lemma dropWhile_id: "xs = [] \<or> \<not> P (hd xs) \<Longrightarrow> dropWhile P xs = xs"
  by (cases xs) auto

lemma strip_digits: "list_all is_digit s \<Longrightarrow> strip s = s"
proof -
  assume a: "list_all is_digit s"
  have 1: "dropWhile is_space s = s"
    using a by (intro dropWhile_id) (cases s, auto simp: not_space_digit)
  have 2: "dropWhile is_space (rev s) = rev s"
  proof (intro dropWhile_id, cases "s = []")
    case True then show "rev s = [] \<or> \<not> is_space (hd (rev s))" by simp
  next
    case False
    then have "last s \<in> set s" by simp
    then have "is_digit (last s)" using a by (simp add: list_all_iff)
    then show "rev s = [] \<or> \<not> is_space (hd (rev s))" using False by (simp add: hd_rev not_space_digit)
  qed
  show ?thesis by (simp add: strip_def 1 2)
qed

lemma py_int_str_nat: "py_int (str_nat n) = Inr (int n)"
proof (cases "str_nat n")
  case Nil
  then show ?thesis using str_nat_nonempty by simp
next
  case (Cons c cs)
  have "is_digit c" using str_nat_digits [of n] Cons by simp
  then have "c \<noteq> CHR ''-''" "c \<noteq> CHR ''+''" using not_sign_digit by auto
  moreover have "strip (str_nat n) = c # cs" using strip_digits [OF str_nat_digits, of n] Cons by simp
  moreover have "digit_part (c # cs) = Some n" using digit_part_str_nat [of n] Cons by simp
  ultimately show ?thesis by (simp add: py_int_def)
qed

lemma py_int_str_int: "py_int (str_int i) = Inr i"
proof (cases "i < 0")
  case False
  then show ?thesis by (simp add: str_int_def py_int_str_nat)
next
  case True
  let ?s = "str_nat (nat (- i))"
  have ns: "\<not> is_space (CHR ''-'')" by (simp add: is_space_def)
  have "dropWhile is_space (rev ?s @ [CHR ''-'']) = rev ?s @ [CHR ''-'']"
  proof (intro dropWhile_id)
    have "?s \<noteq> []" by (rule str_nat_nonempty)
    then have "last ?s \<in> set ?s" by simp
    then have "is_digit (last ?s)" using str_nat_digits [of "nat (- i)"] by (simp add: list_all_iff)
    then show "rev ?s @ [CHR ''-''] = [] \<or> \<not> is_space (hd (rev ?s @ [CHR ''-'']))"
      using \<open>?s \<noteq> []\<close> by (simp add: hd_rev hd_append not_space_digit)
  qed
  then have "strip (CHR ''-'' # ?s) = CHR ''-'' # ?s"
    using ns by (simp add: strip_def)
  then show ?thesis using True by (simp add: str_int_def py_int_def digit_part_str_nat)
qed

lemma py_int_error: "py_int s = Inl e \<Longrightarrow> e = IntParseError"
  by (auto simp: py_int_def split: list.splits if_splits option.splits)

lemma py_int_separator: "py_int [char_of (28 :: nat), CHR ''2''] = Inl IntParseError"
  by code_simp

lemma digit_char_numerals:
  "digit_char 0 = CHR ''0''" "digit_char 1 = CHR ''1''" "digit_char 2 = CHR ''2''"
  "digit_char 3 = CHR ''3''" "digit_char 4 = CHR ''4''" "digit_char 5 = CHR ''5''"
  "digit_char 6 = CHR ''6''" "digit_char 7 = CHR ''7''" "digit_char 8 = CHR ''8''"
  "digit_char 9 = CHR ''9''" "digit_char (Suc 0) = CHR ''1''"
  by code_simp+

lemma to_pyarrow_name_synthetic:
  "to_pyarrow_name (''column_'' @ str_int k) = Inr (''f'' @ str_int (k - 1))"
  by (simp add: to_pyarrow_name_def py_int_str_int)

lemma from_pyarrow_name_positional:
  "from_pyarrow_name (''f'' @ str_int j) = Inr (''column_'' @ str_int (j + 1))"
  by (simp add: from_pyarrow_name_def py_int_str_int)

lemma to_pyarrow_name_error: "to_pyarrow_name c = Inl e \<Longrightarrow> e = IntParseError"
  by (auto simp: to_pyarrow_name_def split: sum.splits dest: py_int_error)

lemma from_pyarrow_name_error: "from_pyarrow_name c = Inl e \<Longrightarrow> e = IntParseError"
  by (auto simp: from_pyarrow_name_def split: sum.splits dest: py_int_error)

lemma map_result_map:
  "(\<And>y. y \<in> set ys \<Longrightarrow> f (h y) = Inr (g y)) \<Longrightarrow> map_result f (map h ys) = Inr (map g ys)"
  by (induction ys) auto

lemma map_result_error: "map_result f xs = Inl e \<Longrightarrow> \<exists>x \<in> set xs. f x = Inl e"
  by (induction xs) (auto split: sum.splits)

lemma synthetic_names_shift:
  "map (\<lambda>j. ''column_'' @ str_int (j + 1)) (map int [0 ..< N]) = synthetic_names N"
proof -
  have "[1 ..< N + 1] = map Suc [0 ..< N]" by (simp add: map_Suc_upt)
  then show ?thesis by (simp add: synthetic_names_def add.commute)
qed

section \<open>The resolver: trace, errors, closed streams\<close>


lemma closed_log: "closed (log e w) = closed w" by (simp add: log_def)






lemma resolve_error:
  "resolve E f kw w = (Inl e, w') \<Longrightarrow> e = ClosedFile \<or> (\<exists>n. e = CollaboratorError n)"
  by (cases f)
     (auto simp: resolve_def prepare_file_arg_def process_http_file_def enter_def Let_def
           split: sum.splits option.splits if_splits prod.splits)

lemma with_file_error:
  assumes "fst (with_file E f kw body w) = Inl e"
  shows "e = ClosedFile \<or> (\<exists>n. e = CollaboratorError n) \<or> (\<exists>data w'. fst (body data w') = Inl e)"
proof -
  obtain r w2 where rs: "resolve E f kw w = (r, w2)" by (cases "resolve E f kw w")
  show ?thesis
  proof (cases r)
    case (Inl e')
    then have "e' = e" using assms rs by (simp add: with_file_def)
    then show ?thesis using resolve_error [of E f kw w e w2] rs Inl by auto
  next
    case (Inr cd)
    obtain c data where cd: "cd = (c, data)" by (cases cd)
    have "fst (body data w2) = Inl e"
      using assms rs Inr cd by (simp add: with_file_def split: prod.splits)
    then show ?thesis by blast
  qed
qed

lemma raised_error: "raised r = Inl e \<Longrightarrow> \<exists>n. e = CollaboratorError n"
  by (cases r) (auto simp: raised_def)

lemma import_table_error: "import_table r = Inl e \<Longrightarrow> \<exists>n. e = CollaboratorError n"
  by (cases r) (auto simp: import_table_def)

lemma resolve_bytes:
  "resolve E (Bytes b) kw w
     = (Inr (ManagedFile (Bytes b), Given (Bytes b)), log (Prepare (Bytes b) kw) w)"
  by (simp add: resolve_def prepare_file_arg_def enter_def)

lemma prepare_closed: "closed (snd (prepare_file_arg E f kw w)) = closed w"
  by (cases f)
     (simp_all add: prepare_file_arg_def process_http_file_def closed_log Let_def
               split: sum.splits)

lemma prepare_context:
  "prepare_file_arg E f kw w = (Inr c, w1)
     \<Longrightarrow> (case f of BytesIO h \<Rightarrow> c = SelfBytesIO h | _ \<Rightarrow> \<forall>h. c \<noteq> SelfBytesIO h)"
  by (cases f)
     (auto simp: prepare_file_arg_def process_http_file_def Let_def
           split: sum.splits if_splits)

lemma enter_closed: "closed (snd (enter E c w)) = closed w"
  by (cases c) (simp_all add: enter_def closed_log split: option.splits)

lemma enter_self_closed: "enter E (SelfBytesIO h) w = (Inl e, w') \<Longrightarrow> h \<in> closed w"
  by (simp add: enter_def split: if_splits)

lemma leave_closed:
  "closed (leave c w) = (case c of SelfBytesIO h \<Rightarrow> insert h (closed w) | _ \<Rightarrow> closed w)"
  by (cases c) (simp_all add: leave_def closed_log)

lemma with_file_closed:
  assumes "\<And>data w'. closed (snd (body data w')) = closed w'"
  shows "closed (snd (with_file E f kw body w))
           = (case f of BytesIO h \<Rightarrow> insert h (closed w) | _ \<Rightarrow> closed w)"
proof -
  obtain r w1 where p: "prepare_file_arg E f kw w = (r, w1)"
    by (cases "prepare_file_arg E f kw w")
  have c1: "closed w1 = closed w" using prepare_closed [of E f kw w] p by simp
  show ?thesis
  proof (cases r)
    case (Inl e)
    then have "\<forall>h. f \<noteq> BytesIO h"
      using p by (auto simp: prepare_file_arg_def Let_def)
    moreover have "snd (with_file E f kw body w) = w1"
      using p Inl by (simp add: with_file_def resolve_def)
    ultimately show ?thesis using c1 by (cases f) simp_all
  next
    case (Inr c)
    note ctx = prepare_context [OF p [unfolded Inr]]
    obtain r2 w2 where en: "enter E c w1 = (r2, w2)" by (cases "enter E c w1")
    have c2: "closed w2 = closed w" using enter_closed [of E c w1] en c1 by simp
    show ?thesis
    proof (cases r2)
      case (Inl e)
      have w: "snd (with_file E f kw body w) = w2"
        using p Inr en Inl by (simp add: with_file_def resolve_def)
      show ?thesis
      proof (cases f)
        case (BytesIO h)
        then have "c = SelfBytesIO h" using ctx by simp
        then have "h \<in> closed w" using enter_self_closed en Inl c1 by fastforce
        then show ?thesis using w c2 BytesIO by (simp add: insert_absorb)
      qed (use w c2 in simp_all)
    next
      case data: (Inr data)
      obtain r3 w3 where b: "body data w2 = (r3, w3)" by (cases "body data w2")
      have c3: "closed w3 = closed w" using assms [of data w2] b c2 by simp
      have w: "snd (with_file E f kw body w) = leave c w3"
        using p Inr en data b by (simp add: with_file_def resolve_def)
      show ?thesis
      proof (cases f)
        case (BytesIO h)
        then have "c = SelfBytesIO h" using ctx by simp
        then show ?thesis using w c3 BytesIO by (simp add: leave_closed)
      next
        case (StringIO t)
        then have "\<forall>h. c \<noteq> SelfBytesIO h" using ctx by simp
        then show ?thesis using w c3 StringIO by (cases c) (simp_all add: leave_closed)
      next
        case (PathObj t)
        then have "\<forall>h. c \<noteq> SelfBytesIO h" using ctx by simp
        then show ?thesis using w c3 PathObj by (cases c) (simp_all add: leave_closed)
      next
        case (Str t)
        then have "\<forall>h. c \<noteq> SelfBytesIO h" using ctx by simp
        then show ?thesis using w c3 Str by (cases c) (simp_all add: leave_closed)
      next
        case (StrList t)
        then have "\<forall>h. c \<noteq> SelfBytesIO h" using ctx by simp
        then show ?thesis using w c3 StrList by (cases c) (simp_all add: leave_closed)
      next
        case (Bytes t)
        then have "\<forall>h. c \<noteq> SelfBytesIO h" using ctx by simp
        then show ?thesis using w c3 Bytes by (cases c) (simp_all add: leave_closed)
      next
        case (BinaryIO t)
        then have "\<forall>h. c \<noteq> SelfBytesIO h" using ctx by simp
        then show ?thesis using w c3 BinaryIO by (cases c) (simp_all add: leave_closed)
      qed
    qed
  qed
qed

section \<open>The post-read rename\<close>

lemma assign_names_eq:
  "i + length L \<le> length cols \<Longrightarrow>
   assign_names i L cols = Inr (take i cols @ L @ drop (i + length L) cols)"
proof (induction L arbitrary: i cols)
  case Nil
  then show ?case by simp
next
  case (Cons name rest)
  then have "assign_names (Suc i) rest (cols[i := name]) =
      Inr (take (Suc i) (cols[i := name]) @ rest @ drop (Suc i + length rest) (cols[i := name]))"
    by simp
  with Cons.prems show ?case
    by (simp add: take_Suc_conv_app_nth upd_conv_take_nth_drop add.commute)
qed

lemma update_columns_total: "\<exists>df'. update_columns df L = Inr df'"
  by (simp add: update_columns_def width_def assign_names_eq)

text \<open>
  Claim C2. For a table of width \<open>W\<close> and a rename list \<open>L\<close>: if \<open>L\<close> is shorter than \<open>W\<close>,
  the first \<open>length L\<close> columns take the new names and the columns behind them keep their
  names; if \<open>L\<close> has \<open>W\<close> entries or more, the \<open>W\<close> columns take the first \<open>W\<close> entries
  and the rest of \<open>L\<close> is ignored. The rename never fails. The first half is the loop of
  \<^verbatim>\<open>update_columns\<close>; the second half is the setter of \<^verbatim>\<open>DataFrame.columns\<close>, as the spec
  describes it.
\<close>

theorem update_columns_rename:
  "(length L < width df \<longrightarrow>
      update_columns df L = Inr (df\<lparr>columns := L @ drop (length L) (columns df)\<rparr>))
   \<and> (width df \<le> length L \<longrightarrow>
      update_columns df L = Inr (df\<lparr>columns := take (width df) L\<rparr>))"
  by (simp add: update_columns_def set_columns_def width_def assign_names_eq)

theorem update_columns_rename_witness:
  "update_columns \<lparr>columns = [''a'', ''b'', ''c''], payload = 7\<rparr> [''x'', ''y'']
     = Inr \<lparr>columns = [''x'', ''y'', ''c''], payload = 7\<rparr>
   \<and> update_columns \<lparr>columns = [''a'', ''b''], payload = 7\<rparr> [''x'', ''y'', ''z'']
     = Inr \<lparr>columns = [''x'', ''y''], payload = 7\<rparr>"
  using update_columns_rename [of "[''x'', ''y'']" "\<lparr>columns = [''a'', ''b'', ''c''], payload = 7\<rparr>"]
    update_columns_rename [of "[''x'', ''y'', ''z'']" "\<lparr>columns = [''a'', ''b''], payload = 7\<rparr>"]
  by (simp add: width_def)

section \<open>The checks of the delimited-text reader\<close>

lemma check_columns_eq:
  "check_columns cs =
     (if list_all (\<lambda>c. startswith c ''column_'') cs then Inr ()
      else Inl (InvalidOptionCombination ColumnPrefix))"
  by (induction cs) auto

text \<open>
  Claim C5. Every call of \<^verbatim>\<open>read_csv\<close> with an empty \<^verbatim>\<open>bytes\<close> value fails with
  \<open>InvalidInput\<close>, whatever the other arguments and the environment are, and leaves the
  world as it was: the trace has no new entry, so neither the source resolver nor a
  reader has been called, and no stream has been closed.
\<close>

theorem read_csv_empty_bytes:
  "read_csv E (a\<lparr>file_in := Bytes []\<rparr>) w = (Inl InvalidInput, w)"
  by (simp add: read_csv_def)

lemma reconcile_error:
  "reconcile a = Inl e \<Longrightarrow> e = InvalidOptionCombination RenameLongerThanSelection"
  by (auto simp: reconcile_def current_columns_def Let_def
           split: option.splits dtypes_arg.splits if_splits sum.splits prod.splits)


lemma read_csv_native_error:
  assumes "fst (read_csv_native E a w) = Inl e"
  shows "e = ClosedFile \<or> (\<exists>n. e = CollaboratorError n)
         \<or> e = InvalidOptionCombination RenameLongerThanSelection"
proof (cases "reconcile a")
  case (Inl e')
  then show ?thesis using assms reconcile_error [of a e'] by (simp add: read_csv_native_def)
next
  case (Inr dt)
  let ?body = "\<lambda>data w'. (raised (DataFrame_read_csv E (native_csv_call a data dt)),
                              log (NativeReadCsv (native_csv_call a data dt)) w')"
  let ?r = "with_file E (file_in a) (listify (storage_options a)) ?body w"
  obtain r1 w1 where r: "?r = (r1, w1)" by (cases ?r)
  show ?thesis
  proof (cases r1)
    case (Inl e')
    then have "e' = e" using assms Inr r by (simp add: read_csv_native_def)
    then have "fst ?r = Inl e" using r Inl by simp
    from with_file_error [OF this] show ?thesis by (auto dest: raised_error)
  next
    case (Inr df)
    then show ?thesis
      using assms \<open>reconcile a = Inr dt\<close> r update_columns_total [of df "listify (new_columns a)"]
      by (auto simp: read_csv_native_def split: if_splits)
  qed
qed

lemma csv_include_columns_error: "csv_include_columns a = Inl e \<Longrightarrow> e = IntParseError"
  by (auto simp: csv_include_columns_def split: if_splits sum.splits
           dest!: map_result_error to_pyarrow_name_error)

lemma read_csv_pyarrow_error:
  assumes "fst (read_csv_pyarrow E a w) = Inl e"
  shows "e = IntParseError \<or> e = ClosedFile \<or> (\<exists>n. e = CollaboratorError n)"
proof (cases "csv_include_columns a")
  case (Inl e')
  then show ?thesis using assms csv_include_columns_error [of a e'] by (simp add: read_csv_pyarrow_def)
next
  case (Inr inc)
  let ?body = "\<lambda>data w'. (raised (pa_csv_read_csv E (pa_csv_call a data inc)),
                              log (PaCsvRead (pa_csv_call a data inc)) w')"
  let ?r = "with_file E (file_in a) (listify (storage_options a)) ?body w"
  obtain r1 w1 where r: "?r = (r1, w1)" by (cases ?r)
  show ?thesis
  proof (cases r1)
    case (Inl e')
    then have "e' = e" using assms Inr r by (simp add: read_csv_pyarrow_def)
    then have "fst ?r = Inl e" using r Inl by simp
    from with_file_error [OF this] show ?thesis by (auto dest: raised_error)
  next
    case (Inr tbl)
    show ?thesis
    proof (cases "has_header a")
      case True
      then show ?thesis
        using assms \<open>csv_include_columns a = Inr inc\<close> r Inr
          update_columns_total [of "from_arrow tbl (rechunk a)" "listify (new_columns a)"]
        by (auto simp: read_csv_pyarrow_def split: if_splits)
    next
      case False
      show ?thesis
      proof (cases "map_result from_pyarrow_name (column_names tbl)")
        case (Inl e')
        then have "e' = e"
          using assms \<open>csv_include_columns a = Inr inc\<close> r Inr False
          by (simp add: read_csv_pyarrow_def)
        then show ?thesis using Inl by (auto dest!: map_result_error from_pyarrow_name_error)
      next
        case names: (Inr names)
        then show ?thesis
          using assms \<open>csv_include_columns a = Inr inc\<close> r Inr False
            update_columns_total [of "from_arrow (rename_columns tbl names) (rechunk a)"
                                     "listify (new_columns a)"]
          by (auto simp: read_csv_pyarrow_def split: if_splits)
      qed
    qed
  qed
qed

text \<open>
  Claim C7, as amended. Take a call of \<^verbatim>\<open>read_csv\<close> whose file is not an empty \<^verbatim>\<open>bytes\<close>
  value, with \<^verbatim>\<open>has_header=False\<close> and a non-empty selection \<^verbatim>\<open>columns\<close>. If some requested
  name does not start with \<^verbatim>\<open>column_\<close>, the call fails with
  \<open>InvalidOptionCombination ColumnPrefix\<close> and the world is unchanged (nothing resolved,
  nothing read). If every requested name starts with \<^verbatim>\<open>column_\<close>, the call does not fail
  with that error.
\<close>

theorem column_prefix_check:
  assumes "file_in a \<noteq> Bytes []" and "\<not> has_header a" and "truthy (columns_arg a)"
  shows "(\<not> list_all (\<lambda>c. startswith c ''column_'') (listify (columns_arg a))
            \<longrightarrow> read_csv E a w = (Inl (InvalidOptionCombination ColumnPrefix), w))
       \<and> (list_all (\<lambda>c. startswith c ''column_'') (listify (columns_arg a))
            \<longrightarrow> fst (read_csv E a w) \<noteq> Inl (InvalidOptionCombination ColumnPrefix))"
proof (intro conjI impI)
  assume "\<not> list_all (\<lambda>c. startswith c ''column_'') (listify (columns_arg a))"
  then show "read_csv E a w = (Inl (InvalidOptionCombination ColumnPrefix), w)"
    using assms by (simp add: read_csv_def check_columns_eq)
next
  assume ok: "list_all (\<lambda>c. startswith c ''column_'') (listify (columns_arg a))"
  have "fst (read_csv E a w) = Inl MissingOptionalDependency
        \<or> fst (read_csv E a w) = fst (read_csv_pyarrow E a w)
        \<or> fst (read_csv E a w) = fst (read_csv_native E a w)"
    using assms ok by (simp add: read_csv_def check_columns_eq)
  then show "fst (read_csv E a w) \<noteq> Inl (InvalidOptionCombination ColumnPrefix)"
    using read_csv_pyarrow_error [of E a w "InvalidOptionCombination ColumnPrefix"]
      read_csv_native_error [of E a w "InvalidOptionCombination ColumnPrefix"]
    by auto
qed

theorem column_prefix_check_witness:
  "read_csv sample_env
     ((csv_defaults (Str ''a.csv''))\<lparr>has_header := False, columns_arg := Some [''a'']\<rparr>) world0
     = (Inl (InvalidOptionCombination ColumnPrefix), world0)
   \<and> fst (read_csv sample_env
       ((csv_defaults (Str ''a.csv''))\<lparr>has_header := False, columns_arg := Some [''column_1'']\<rparr>)
       world0) \<noteq> Inl (InvalidOptionCombination ColumnPrefix)"
  using column_prefix_check [of "(csv_defaults (Str ''a.csv''))\<lparr>has_header := False, columns_arg := Some [''a'']\<rparr>" sample_env world0]
    column_prefix_check [of "(csv_defaults (Str ''a.csv''))\<lparr>has_header := False, columns_arg := Some [''column_1'']\<rparr>" sample_env world0]
  by (simp add: csv_defaults_def truthy_def listify_def startswith_def)

text \<open>
  Claim C7 as it is stated does not hold for every call: the test for an empty \<^verbatim>\<open>bytes\<close>
  value (lines 236-237) comes before the test of the names (lines 241-247). With the file
  \<^verbatim>\<open>b""\<close>, \<^verbatim>\<open>has_header=False\<close> and \<^verbatim>\<open>columns=["a"]\<close> the call fails with \<open>InvalidInput\<close>.
\<close>

theorem column_prefix_counterexample:
  "\<not> has_header ((csv_defaults (Bytes []))\<lparr>has_header := False, columns_arg := Some [''a'']\<rparr>)
   \<and> \<not> startswith ''a'' ''column_''
   \<and> read_csv sample_env
       ((csv_defaults (Bytes []))\<lparr>has_header := False, columns_arg := Some [''a'']\<rparr>) world0
     = (Inl InvalidInput, world0)
   \<and> InvalidInput \<noteq> InvalidOptionCombination ColumnPrefix"
  by (simp add: read_csv_def csv_defaults_def startswith_def)

section \<open>The choice of the reader\<close>










section \<open>Header-less reads through pyarrow\<close>

lemma csv_include_columns_synthetic:
  assumes "\<not> has_header a" and "ks \<noteq> []"
    and "columns_arg a = Some (map (\<lambda>k. ''column_'' @ str_int k) ks)"
  shows "csv_include_columns a = Inr (Some (map (\<lambda>k. ''f'' @ str_int (k - 1)) ks))"
proof -
  have "map_result to_pyarrow_name (map (\<lambda>k. ''column_'' @ str_int k) ks)
      = Inr (map (\<lambda>k. ''f'' @ str_int (k - 1)) ks)"
    by (rule map_result_map) (rule to_pyarrow_name_synthetic)
  then show ?thesis
    using assms by (simp add: csv_include_columns_def truthy_def listify_def)
qed

lemma read_csv_pyarrow_run:
  assumes "\<not> has_header a"
    and "csv_include_columns a = Inr inc"
    and "resolve E (file_in a) (listify (storage_options a)) w = (Inr (c, data), w2)"
    and "pa_csv_read_csv E (pa_csv_call a data inc) = Inr tbl"
    and "column_names tbl = map (\<lambda>j. ''f'' @ str_int j) js"
  shows "read_csv_pyarrow E a w
     = ((if truthy (new_columns a) then
           update_columns \<lparr>columns = map (\<lambda>j. ''column_'' @ str_int (j + 1)) js,
                            payload = cells tbl\<rparr> (listify (new_columns a))
         else Inr \<lparr>columns = map (\<lambda>j. ''column_'' @ str_int (j + 1)) js,
                    payload = cells tbl\<rparr>),
        leave c (log (PaCsvRead (pa_csv_call a data inc)) w2))"
proof -
  have m: "map_result from_pyarrow_name (column_names tbl)
      = Inr (map (\<lambda>j. ''column_'' @ str_int (j + 1)) js)"
    unfolding assms(5) by (rule map_result_map) (rule from_pyarrow_name_positional)
  show ?thesis
    using assms(1-4) m
    by (simp add: read_csv_pyarrow_def with_file_def raised_def rename_columns_def
          from_arrow_def)
qed

lemma csv_defaults_fields:
  "file_in (csv_defaults f) = f" "has_header (csv_defaults f) = True"
  "ignore_errors (csv_defaults f) = False" "n_rows (csv_defaults f) = None"
  "skip_rows (csv_defaults f) = 0" "projection (csv_defaults f) = None"
  "sep (csv_defaults f) = '',''" "columns_arg (csv_defaults f) = None"
  "rechunk (csv_defaults f) = True" "encoding (csv_defaults f) = ''utf8''"
  "n_threads (csv_defaults f) = None" "dtypes (csv_defaults f) = None"
  "new_columns (csv_defaults f) = None" "use_pyarrow (csv_defaults f) = False"
  "low_memory (csv_defaults f) = False" "storage_options (csv_defaults f) = None"
  "null_values (csv_defaults f) = None" "parse_dates (csv_defaults f) = False"
  by (simp_all add: csv_defaults_def)

lemma csv_include_columns_projection:
  assumes "\<not> truthy (columns_arg a)" and "projection a = Some ps" and "ps \<noteq> []"
  shows "csv_include_columns a = Inr (Some (map (\<lambda>i. ''f'' @ str_int i) ps))"
  using assms by (simp add: csv_include_columns_def truthy_def listify_def)

lemma csv_include_columns_all:
  assumes "\<not> truthy (columns_arg a)" and "\<not> truthy (projection a)"
  shows "csv_include_columns a = Inr None"
  using assms by (simp add: csv_include_columns_def)

text \<open>
  Claim C3, as amended. Take a header-less call of \<^verbatim>\<open>read_csv\<close> that goes through pyarrow
  (the conditions of lines 254-263 hold and the input passes the checks before them).
  \<^item> A requested name \<^verbatim>\<open>column_<k>\<close> is handed to pyarrow as \<^verbatim>\<open>f<k-1>\<close>, and a name \<^verbatim>\<open>f<j>\<close>
    of the table that pyarrow returns becomes \<^verbatim>\<open>column_<j+1>\<close>; the two translations are
    inverse to each other.
  \<^item> What pyarrow is asked to include: for a selection of names \<^verbatim>\<open>column_<k>\<close> the names
    \<^verbatim>\<open>f<k-1>\<close> in the order of the selection; with no selection of names, for a projection
    of indices \<open>i\<close> the names \<^verbatim>\<open>f<i>\<close> in the order of the projection; with neither, nothing
    (all columns).
  \<^item> If the source resolves and pyarrow returns the columns \<^verbatim>\<open>f<j>\<close> for the numbers \<open>j\<close> of
    a list \<open>js\<close>, the table that is built has the names \<^verbatim>\<open>column_<j+1>\<close> in the same order,
    before the rename list, if there is one, is applied to it.
  \<^item> For \<open>js = 0, ..., N - 1\<close>, all the columns of a file of \<open>N\<close> columns, these are the
    synthetic names \<^verbatim>\<open>column_1\<close>, ..., \<^verbatim>\<open>column_N\<close> of the native reader.
\<close>

theorem pyarrow_headerless_names:
  assumes "use_pyarrow a" and "PYARROW_AVAILABLE E" and "dtypes a = None" and "n_rows a = None"
    and "n_threads a = None" and "encoding a = ''utf8''" and "\<not> low_memory a"
    and "null_values a = None" and "parse_dates a"
    and "\<not> has_header a" and "file_in a \<noteq> Bytes []"
    and "list_all (\<lambda>c. startswith c ''column_'') (listify (columns_arg a))"
  shows "to_pyarrow_name (''column_'' @ str_int k) = Inr (''f'' @ str_int (k - 1))
    \<and> from_pyarrow_name (''f'' @ str_int (k - 1)) = Inr (''column_'' @ str_int k)
    \<and> from_pyarrow_name (''f'' @ str_int j) = Inr (''column_'' @ str_int (j + 1))
    \<and> (\<forall>ks. ks \<noteq> [] \<and> columns_arg a = Some (map (\<lambda>k. ''column_'' @ str_int k) ks)
          \<longrightarrow> csv_include_columns a = Inr (Some (map (\<lambda>k. ''f'' @ str_int (k - 1)) ks)))
    \<and> (\<forall>ps. \<not> truthy (columns_arg a) \<and> projection a = Some ps \<and> ps \<noteq> []
          \<longrightarrow> csv_include_columns a = Inr (Some (map (\<lambda>i. ''f'' @ str_int i) ps)))
    \<and> (\<not> truthy (columns_arg a) \<and> \<not> truthy (projection a)
          \<longrightarrow> csv_include_columns a = Inr None)
    \<and> (\<forall>inc c data w2 tbl js.
          csv_include_columns a = Inr inc
          \<and> resolve E (file_in a) (listify (storage_options a)) w = (Inr (c, data), w2)
          \<and> pa_csv_read_csv E (pa_csv_call a data inc) = Inr tbl
          \<and> column_names tbl = map (\<lambda>j. ''f'' @ str_int j) js
          \<longrightarrow> read_csv E a w
               = ((if truthy (new_columns a) then
                     update_columns \<lparr>columns = map (\<lambda>j. ''column_'' @ str_int (j + 1)) js,
                                      payload = cells tbl\<rparr> (listify (new_columns a))
                   else Inr \<lparr>columns = map (\<lambda>j. ''column_'' @ str_int (j + 1)) js,
                              payload = cells tbl\<rparr>),
                  leave c (log (PaCsvRead (pa_csv_call a data inc)) w2)))
    \<and> (\<forall>N. map (\<lambda>j. ''column_'' @ str_int (j + 1)) (map int [0 ..< N]) = synthetic_names N)"
proof (intro conjI allI impI)
  show "to_pyarrow_name (''column_'' @ str_int k) = Inr (''f'' @ str_int (k - 1))"
    by (rule to_pyarrow_name_synthetic)
  show "from_pyarrow_name (''f'' @ str_int (k - 1)) = Inr (''column_'' @ str_int k)"
    using from_pyarrow_name_positional [of "k - 1"] by simp
  show "from_pyarrow_name (''f'' @ str_int j) = Inr (''column_'' @ str_int (j + 1))"
    by (rule from_pyarrow_name_positional)
next
  fix ks
  assume "ks \<noteq> [] \<and> columns_arg a = Some (map (\<lambda>k. ''column_'' @ str_int k) ks)"
  then show "csv_include_columns a = Inr (Some (map (\<lambda>k. ''f'' @ str_int (k - 1)) ks))"
    using csv_include_columns_synthetic [OF assms(10)] by blast
next
  fix ps
  assume "\<not> truthy (columns_arg a) \<and> projection a = Some ps \<and> ps \<noteq> []"
  then show "csv_include_columns a = Inr (Some (map (\<lambda>i. ''f'' @ str_int i) ps))"
    using csv_include_columns_projection by blast
next
  assume "\<not> truthy (columns_arg a) \<and> \<not> truthy (projection a)"
  then show "csv_include_columns a = Inr None"
    using csv_include_columns_all by blast
next
  fix inc c data w2 tbl js
  assume h: "csv_include_columns a = Inr inc
          \<and> resolve E (file_in a) (listify (storage_options a)) w = (Inr (c, data), w2)
          \<and> pa_csv_read_csv E (pa_csv_call a data inc) = Inr tbl
          \<and> column_names tbl = map (\<lambda>j. ''f'' @ str_int j) js"
  have "read_csv E a w = read_csv_pyarrow E a w"
    using assms by (simp add: read_csv_def check_columns_eq)
  then show "read_csv E a w
               = ((if truthy (new_columns a) then
                     update_columns \<lparr>columns = map (\<lambda>j. ''column_'' @ str_int (j + 1)) js,
                                      payload = cells tbl\<rparr> (listify (new_columns a))
                   else Inr \<lparr>columns = map (\<lambda>j. ''column_'' @ str_int (j + 1)) js,
                              payload = cells tbl\<rparr>),
                  leave c (log (PaCsvRead (pa_csv_call a data inc)) w2))"
    using h read_csv_pyarrow_run [OF assms(10), of inc E w c data w2 tbl js] by simp
next
  fix N
  show "map (\<lambda>j. ''column_'' @ str_int (j + 1)) (map int [0 ..< N]) = synthetic_names N"
    by (rule synthetic_names_shift)
qed

theorem pyarrow_headerless_names_witness:
  "read_csv sample_env
     ((csv_defaults (Str ''a.csv''))\<lparr>has_header := False, use_pyarrow := True,
        parse_dates := True\<rparr>) world0
   = (Inr \<lparr>columns = [''column_1'', ''column_2'', ''column_3''], payload = 7\<rparr>,
      \<lparr>closed = {},
       trace = [Prepare (Str ''a.csv'') [],
                PaCsvRead \<lparr>pa_data = Given (Str ''a.csv''), pa_skip_rows = 0,
                           autogenerate_column_names = True, delimiter = '','',
                           include_columns = None, include_missing_columns = False\<rparr>]\<rparr>)
   \<and> read_csv sample_env
     ((csv_defaults (Str ''a.csv''))\<lparr>has_header := False, use_pyarrow := True,
        parse_dates := True, projection := Some [2, 0]\<rparr>) world0
   = (Inr \<lparr>columns = [''column_3'', ''column_1''], payload = 7\<rparr>,
      \<lparr>closed = {},
       trace = [Prepare (Str ''a.csv'') [],
                PaCsvRead \<lparr>pa_data = Given (Str ''a.csv''), pa_skip_rows = 0,
                           autogenerate_column_names = True, delimiter = '','',
                           include_columns = Some [''f2'', ''f0''],
                           include_missing_columns = False\<rparr>]\<rparr>)"
proof
  let ?a = "(csv_defaults (Str ''a.csv''))\<lparr>has_header := False, use_pyarrow := True,
        parse_dates := True\<rparr>"
  let ?tbl = "\<lparr>column_names = [''f0'', ''f1'', ''f2''], cells = 7\<rparr>"
  have h: "use_pyarrow ?a" "PYARROW_AVAILABLE sample_env" "dtypes ?a = None" "n_rows ?a = None"
      "n_threads ?a = None" "encoding ?a = ''utf8''" "\<not> low_memory ?a"
      "null_values ?a = None" "parse_dates ?a" "\<not> has_header ?a" "file_in ?a \<noteq> Bytes []"
      "list_all (\<lambda>c. startswith c ''column_'') (listify (columns_arg ?a))"
    by (simp_all add: csv_defaults_fields sample_env_def listify_def)
  note t = pyarrow_headerless_names [OF h, of 1 0 world0]
  have "\<not> truthy (columns_arg ?a) \<and> \<not> truthy (projection ?a)"
    by (simp add: csv_defaults_fields truthy_def listify_def)
  with t have i: "csv_include_columns ?a = Inr None" by blast
  have s: "resolve sample_env (file_in ?a) (listify (storage_options ?a)) world0
      = (Inr (ManagedFile (Str ''a.csv''), Given (Str ''a.csv'')),
         log (Prepare (Str ''a.csv'') []) world0)"
    by (simp add: resolve_def prepare_file_arg_def enter_def csv_defaults_fields sample_env_def
          listify_def startswith_def)
  have p: "pa_csv_read_csv sample_env (pa_csv_call ?a (Given (Str ''a.csv'')) None) = Inr ?tbl"
    by (simp add: sample_env_def sample_pa_csv_def pa_csv_call_def csv_defaults_fields)
  have n: "column_names ?tbl = map (\<lambda>j. ''f'' @ str_int j) [0, 1, 2]"
    by (simp add: str_int_def str_nat.simps digit_char_numerals)
  from t
  have "\<forall>inc c data w2 tbl js.
          csv_include_columns ?a = Inr inc
          \<and> resolve sample_env (file_in ?a) (listify (storage_options ?a)) world0
              = (Inr (c, data), w2)
          \<and> pa_csv_read_csv sample_env (pa_csv_call ?a data inc) = Inr tbl
          \<and> column_names tbl = map (\<lambda>j. ''f'' @ str_int j) js
          \<longrightarrow> read_csv sample_env ?a world0
               = ((if truthy (new_columns ?a) then
                     update_columns \<lparr>columns = map (\<lambda>j. ''column_'' @ str_int (j + 1)) js,
                                      payload = cells tbl\<rparr> (listify (new_columns ?a))
                   else Inr \<lparr>columns = map (\<lambda>j. ''column_'' @ str_int (j + 1)) js,
                              payload = cells tbl\<rparr>),
                  leave c (log (PaCsvRead (pa_csv_call ?a data inc)) w2))"
    by blast
  from this [rule_format, of None "ManagedFile (Str ''a.csv'')" "Given (Str ''a.csv'')"
      "log (Prepare (Str ''a.csv'') []) world0" ?tbl "[0, 1, 2]"] i s p n
  have r: "read_csv sample_env ?a world0
      = ((if truthy (new_columns ?a) then
            update_columns \<lparr>columns = map (\<lambda>j. ''column_'' @ str_int (j + 1)) [0, 1, 2],
                             payload = cells ?tbl\<rparr> (listify (new_columns ?a))
          else Inr \<lparr>columns = map (\<lambda>j. ''column_'' @ str_int (j + 1)) [0, 1, 2],
                     payload = cells ?tbl\<rparr>),
         leave (ManagedFile (Str ''a.csv''))
           (log (PaCsvRead (pa_csv_call ?a (Given (Str ''a.csv'')) None))
              (log (Prepare (Str ''a.csv'') []) world0)))"
    by blast
  show "read_csv sample_env ?a world0
   = (Inr \<lparr>columns = [''column_1'', ''column_2'', ''column_3''], payload = 7\<rparr>,
      \<lparr>closed = {},
       trace = [Prepare (Str ''a.csv'') [],
                PaCsvRead \<lparr>pa_data = Given (Str ''a.csv''), pa_skip_rows = 0,
                           autogenerate_column_names = True, delimiter = '','',
                           include_columns = None, include_missing_columns = False\<rparr>]\<rparr>)"
    unfolding r
    by (simp add: csv_defaults_fields truthy_def listify_def leave_def log_def world0_def
          pa_csv_call_def str_int_def str_nat.simps digit_char_numerals)
next
  let ?a = "(csv_defaults (Str ''a.csv''))\<lparr>has_header := False, use_pyarrow := True,
        parse_dates := True, projection := Some [2, 0]\<rparr>"
  let ?tbl = "\<lparr>column_names = [''f2'', ''f0''], cells = 7\<rparr>"
  let ?inc = "Some (map (\<lambda>i. ''f'' @ str_int i) [2, 0])"
  have h: "use_pyarrow ?a" "PYARROW_AVAILABLE sample_env" "dtypes ?a = None" "n_rows ?a = None"
      "n_threads ?a = None" "encoding ?a = ''utf8''" "\<not> low_memory ?a"
      "null_values ?a = None" "parse_dates ?a" "\<not> has_header ?a" "file_in ?a \<noteq> Bytes []"
      "list_all (\<lambda>c. startswith c ''column_'') (listify (columns_arg ?a))"
    by (simp_all add: csv_defaults_fields sample_env_def listify_def)
  note t = pyarrow_headerless_names [OF h, of 1 0 world0]
  have "\<not> truthy (columns_arg ?a) \<and> projection ?a = Some [2, 0] \<and> [2, 0 :: int] \<noteq> []"
    by (simp add: csv_defaults_fields truthy_def listify_def)
  with t have i: "csv_include_columns ?a = Inr ?inc" by blast
  have e: "?inc = Some [''f2'', ''f0'']"
    by (simp add: str_int_def str_nat.simps digit_char_numerals)
  have s: "resolve sample_env (file_in ?a) (listify (storage_options ?a)) world0
      = (Inr (ManagedFile (Str ''a.csv''), Given (Str ''a.csv'')),
         log (Prepare (Str ''a.csv'') []) world0)"
    by (simp add: resolve_def prepare_file_arg_def enter_def csv_defaults_fields sample_env_def
          listify_def startswith_def)
  have p: "pa_csv_read_csv sample_env (pa_csv_call ?a (Given (Str ''a.csv'')) ?inc) = Inr ?tbl"
    unfolding e
    by (simp add: sample_env_def sample_pa_csv_def pa_csv_call_def csv_defaults_fields)
  have n: "column_names ?tbl = map (\<lambda>j. ''f'' @ str_int j) [2, 0]"
    by (simp add: str_int_def str_nat.simps digit_char_numerals)
  from t
  have "\<forall>inc c data w2 tbl js.
          csv_include_columns ?a = Inr inc
          \<and> resolve sample_env (file_in ?a) (listify (storage_options ?a)) world0
              = (Inr (c, data), w2)
          \<and> pa_csv_read_csv sample_env (pa_csv_call ?a data inc) = Inr tbl
          \<and> column_names tbl = map (\<lambda>j. ''f'' @ str_int j) js
          \<longrightarrow> read_csv sample_env ?a world0
               = ((if truthy (new_columns ?a) then
                     update_columns \<lparr>columns = map (\<lambda>j. ''column_'' @ str_int (j + 1)) js,
                                      payload = cells tbl\<rparr> (listify (new_columns ?a))
                   else Inr \<lparr>columns = map (\<lambda>j. ''column_'' @ str_int (j + 1)) js,
                              payload = cells tbl\<rparr>),
                  leave c (log (PaCsvRead (pa_csv_call ?a data inc)) w2))"
    by blast
  from this [rule_format, of ?inc "ManagedFile (Str ''a.csv'')" "Given (Str ''a.csv'')"
      "log (Prepare (Str ''a.csv'') []) world0" ?tbl "[2, 0]"] i s p n
  have r: "read_csv sample_env ?a world0
      = ((if truthy (new_columns ?a) then
            update_columns \<lparr>columns = map (\<lambda>j. ''column_'' @ str_int (j + 1)) [2, 0],
                             payload = cells ?tbl\<rparr> (listify (new_columns ?a))
          else Inr \<lparr>columns = map (\<lambda>j. ''column_'' @ str_int (j + 1)) [2, 0],
                     payload = cells ?tbl\<rparr>),
         leave (ManagedFile (Str ''a.csv''))
           (log (PaCsvRead (pa_csv_call ?a (Given (Str ''a.csv'')) ?inc))
              (log (Prepare (Str ''a.csv'') []) world0)))"
    by blast
  show "read_csv sample_env ?a world0
   = (Inr \<lparr>columns = [''column_3'', ''column_1''], payload = 7\<rparr>,
      \<lparr>closed = {},
       trace = [Prepare (Str ''a.csv'') [],
                PaCsvRead \<lparr>pa_data = Given (Str ''a.csv''), pa_skip_rows = 0,
                           autogenerate_column_names = True, delimiter = '','',
                           include_columns = Some [''f2'', ''f0''],
                           include_missing_columns = False\<rparr>]\<rparr>)"
    unfolding r
    by (simp add: csv_defaults_fields truthy_def listify_def leave_def log_def world0_def
          pa_csv_call_def str_int_def str_nat.simps digit_char_numerals)
qed

text \<open>
  Claim C3 as it is stated does not hold for every header-less read through pyarrow: with
  a selection the table has the selected columns only, under their own names. For
  \<^verbatim>\<open>columns=["column_2"]\<close> pyarrow is asked for \<^verbatim>\<open>f1\<close> and the one column of the result is
  \<^verbatim>\<open>column_2\<close>, not \<^verbatim>\<open>column_1\<close>.
\<close>

theorem pyarrow_headerless_counterexample:
  "read_csv sample_env
     ((csv_defaults (Str ''a.csv''))\<lparr>has_header := False, use_pyarrow := True,
        parse_dates := True, columns_arg := Some [''column_2'']\<rparr>) world0
   = (Inr \<lparr>columns = [''column_2''], payload = 7\<rparr>,
      \<lparr>closed = {},
       trace = [Prepare (Str ''a.csv'') [],
                PaCsvRead \<lparr>pa_data = Given (Str ''a.csv''), pa_skip_rows = 0,
                           autogenerate_column_names = True, delimiter = '','',
                           include_columns = Some [''f1''], include_missing_columns = False\<rparr>]\<rparr>)
   \<and> [''column_2''] \<noteq> synthetic_names 1"
proof
  let ?a = "(csv_defaults (Str ''a.csv''))\<lparr>has_header := False, use_pyarrow := True,
        parse_dates := True, columns_arg := Some [''column_2'']\<rparr>"
  have two: "py_int ''2'' = Inr 2"
    by (simp add: py_int_def strip_def is_space_def digit_part_def is_digit_def digit_val_def)
  have one: "py_int ''1'' = Inr 1"
    by (simp add: py_int_def strip_def is_space_def digit_part_def is_digit_def digit_val_def)
  have i: "csv_include_columns ?a = Inr (Some [''f1''])"
    by (simp add: csv_include_columns_def csv_defaults_fields truthy_def listify_def
          to_pyarrow_name_def two str_int_def str_nat.simps digit_char_numerals)
  have f: "from_pyarrow_name ''f1'' = Inr ''column_2''"
    by (simp add: from_pyarrow_name_def one str_int_def str_nat.simps digit_char_numerals)
  show "read_csv sample_env ?a world0
   = (Inr \<lparr>columns = [''column_2''], payload = 7\<rparr>,
      \<lparr>closed = {},
       trace = [Prepare (Str ''a.csv'') [],
                PaCsvRead \<lparr>pa_data = Given (Str ''a.csv''), pa_skip_rows = 0,
                           autogenerate_column_names = True, delimiter = '','',
                           include_columns = Some [''f1''], include_missing_columns = False\<rparr>]\<rparr>)"
    by (simp add: read_csv_def read_csv_pyarrow_def i f with_file_def resolve_def
          prepare_file_arg_def enter_def leave_def log_def csv_defaults_fields sample_env_def
          sample_pa_csv_def pa_csv_call_def world0_def raised_def rename_columns_def
          from_arrow_def truthy_def listify_def startswith_def)
  show "[''column_2''] \<noteq> synthetic_names 1"
    by (simp add: synthetic_names_def str_int_def str_nat.simps digit_char_numerals)
qed

section \<open>Dtypes under a rename list\<close>












section \<open>The row cap of the columnar readers\<close>

lemma row_cap_ipc:
  assumes "b_use_pyarrow a"
  shows "(b_n_rows a = Some 0 \<longrightarrow>
            read_ipc E a w = read_ipc E (a\<lparr>b_n_rows := None\<rparr>) w
            \<and> fst (read_ipc E a w) \<noteq> Inl (InvalidOptionCombination RowCapWithPyarrow)
            \<and> (\<forall>c data w2.
                 PYARROW_AVAILABLE E
                 \<and> resolve E (b_file a) (listify (b_storage_options a)) w = (Inr (c, data), w2)
                 \<longrightarrow> read_ipc E a w
                      = (import_table (pa_feather_read_table E data (b_memory_map a) (pa_selector a)),
                         leave c (log (PaFeatherRead data (b_memory_map a) (pa_selector a)) w2))))
       \<and> (\<forall>n. b_n_rows a = Some n \<and> n \<noteq> 0 \<longrightarrow>
            read_ipc E a w = (Inl (InvalidOptionCombination RowCapWithPyarrow), w))"
proof (intro conjI impI allI)
  assume z: "b_n_rows a = Some 0"
  show "read_ipc E a w = read_ipc E (a\<lparr>b_n_rows := None\<rparr>) w"
    using assms z by (simp add: read_ipc_def truthy_int_def pa_selector_def cong: if_cong)
  have "fst (read_ipc E a w) = Inl (InvalidOptionCombination RowCapWithPyarrow) \<Longrightarrow> False"
  proof -
    assume f: "fst (read_ipc E a w) = Inl (InvalidOptionCombination RowCapWithPyarrow)"
    have "read_ipc E a w = with_file E (b_file a) (listify (b_storage_options a))
        (\<lambda>data w'. if \<not> PYARROW_AVAILABLE E then (Inl MissingOptionalDependency, w')
           else (import_table (pa_feather_read_table E data (b_memory_map a) (pa_selector a)),
                 log (PaFeatherRead data (b_memory_map a) (pa_selector a)) w')) w"
      using assms z by (simp add: read_ipc_def truthy_int_def)
    with f with_file_error show False
      by (fastforce split: if_splits dest: import_table_error)
  qed
  then show "fst (read_ipc E a w) \<noteq> Inl (InvalidOptionCombination RowCapWithPyarrow)" by blast
next
  fix c data w2
  assume "b_n_rows a = Some 0"
    and "PYARROW_AVAILABLE E
         \<and> resolve E (b_file a) (listify (b_storage_options a)) w = (Inr (c, data), w2)"
  then show "read_ipc E a w
      = (import_table (pa_feather_read_table E data (b_memory_map a) (pa_selector a)),
         leave c (log (PaFeatherRead data (b_memory_map a) (pa_selector a)) w2))"
    using assms by (simp add: read_ipc_def truthy_int_def with_file_def)
next
  fix n assume "b_n_rows a = Some n \<and> n \<noteq> 0"
  then show "read_ipc E a w = (Inl (InvalidOptionCombination RowCapWithPyarrow), w)"
    using assms by (simp add: read_ipc_def truthy_int_def)
qed

lemma row_cap_parquet:
  assumes "b_use_pyarrow a"
  shows "(b_n_rows a = Some 0 \<longrightarrow>
            read_parquet E a w = read_parquet E (a\<lparr>b_n_rows := None\<rparr>) w
            \<and> fst (read_parquet E a w) \<noteq> Inl (InvalidOptionCombination RowCapWithPyarrow)
            \<and> (\<forall>c data w2.
                 PYARROW_AVAILABLE E
                 \<and> resolve E (b_file a) (listify (b_storage_options a)) w = (Inr (c, data), w2)
                 \<longrightarrow> read_parquet E a w
                      = (import_table (pa_parquet_read_table E data (b_memory_map a)
                                         (pa_selector a) (kwargs a)),
                         leave c (log (PaParquetRead data (b_memory_map a) (pa_selector a)
                                         (kwargs a)) w2))))
       \<and> (\<forall>n. b_n_rows a = Some n \<and> n \<noteq> 0 \<longrightarrow>
            read_parquet E a w = (Inl (InvalidOptionCombination RowCapWithPyarrow), w))"
proof (intro conjI impI allI)
  assume z: "b_n_rows a = Some 0"
  show "read_parquet E a w = read_parquet E (a\<lparr>b_n_rows := None\<rparr>) w"
    using assms z by (simp add: read_parquet_def truthy_int_def pa_selector_def cong: if_cong)
  have "fst (read_parquet E a w) = Inl (InvalidOptionCombination RowCapWithPyarrow) \<Longrightarrow> False"
  proof -
    assume f: "fst (read_parquet E a w) = Inl (InvalidOptionCombination RowCapWithPyarrow)"
    have "read_parquet E a w = with_file E (b_file a) (listify (b_storage_options a))
        (\<lambda>data w'. if \<not> PYARROW_AVAILABLE E then (Inl MissingOptionalDependency, w')
           else (import_table (pa_parquet_read_table E data (b_memory_map a) (pa_selector a)
                                 (kwargs a)),
                 log (PaParquetRead data (b_memory_map a) (pa_selector a) (kwargs a)) w')) w"
      using assms z by (simp add: read_parquet_def truthy_int_def)
    with f with_file_error show False
      by (fastforce split: if_splits dest: import_table_error)
  qed
  then show "fst (read_parquet E a w) \<noteq> Inl (InvalidOptionCombination RowCapWithPyarrow)"
    by blast
next
  fix c data w2
  assume "b_n_rows a = Some 0"
    and "PYARROW_AVAILABLE E
         \<and> resolve E (b_file a) (listify (b_storage_options a)) w = (Inr (c, data), w2)"
  then show "read_parquet E a w
      = (import_table (pa_parquet_read_table E data (b_memory_map a) (pa_selector a) (kwargs a)),
         leave c (log (PaParquetRead data (b_memory_map a) (pa_selector a) (kwargs a)) w2))"
    using assms by (simp add: read_parquet_def truthy_int_def with_file_def)
next
  fix n assume "b_n_rows a = Some n \<and> n \<noteq> 0"
  then show "read_parquet E a w = (Inl (InvalidOptionCombination RowCapWithPyarrow), w)"
    using assms by (simp add: read_parquet_def truthy_int_def)
qed

text \<open>
  Claim C9. In \<^verbatim>\<open>read_ipc\<close> and \<^verbatim>\<open>read_parquet\<close> with \<^verbatim>\<open>use_pyarrow=True\<close>, the rejection of a
  row cap tests the truth value of \<^verbatim>\<open>n_rows\<close>. For \<^verbatim>\<open>n_rows=0\<close> the call is the call without a
  row cap: it does not fail with \<open>InvalidOptionCombination RowCapWithPyarrow\<close>, and where
  pyarrow is installed and the source resolves, the pyarrow reader is called (its
  arguments hold no row limit) and its table is returned. For every other number the call
  is rejected before anything is resolved or read.
\<close>

theorem row_cap_truthiness:
  assumes "b_use_pyarrow a" and "b_use_pyarrow p"
  shows "((b_n_rows a = Some 0 \<longrightarrow>
            read_ipc E a w = read_ipc E (a\<lparr>b_n_rows := None\<rparr>) w
            \<and> fst (read_ipc E a w) \<noteq> Inl (InvalidOptionCombination RowCapWithPyarrow)
            \<and> (\<forall>c data w2.
                 PYARROW_AVAILABLE E
                 \<and> resolve E (b_file a) (listify (b_storage_options a)) w = (Inr (c, data), w2)
                 \<longrightarrow> read_ipc E a w
                      = (import_table (pa_feather_read_table E data (b_memory_map a) (pa_selector a)),
                         leave c (log (PaFeatherRead data (b_memory_map a) (pa_selector a)) w2))))
       \<and> (\<forall>n. b_n_rows a = Some n \<and> n \<noteq> 0 \<longrightarrow>
            read_ipc E a w = (Inl (InvalidOptionCombination RowCapWithPyarrow), w)))
    \<and> ((b_n_rows p = Some 0 \<longrightarrow>
            read_parquet E p w = read_parquet E (p\<lparr>b_n_rows := None\<rparr>) w
            \<and> fst (read_parquet E p w) \<noteq> Inl (InvalidOptionCombination RowCapWithPyarrow)
            \<and> (\<forall>c data w2.
                 PYARROW_AVAILABLE E
                 \<and> resolve E (b_file p) (listify (b_storage_options p)) w = (Inr (c, data), w2)
                 \<longrightarrow> read_parquet E p w
                      = (import_table (pa_parquet_read_table E data (b_memory_map p)
                                         (pa_selector p) (kwargs p)),
                         leave c (log (PaParquetRead data (b_memory_map p) (pa_selector p)
                                         (kwargs p)) w2))))
       \<and> (\<forall>n. b_n_rows p = Some n \<and> n \<noteq> 0 \<longrightarrow>
            read_parquet E p w = (Inl (InvalidOptionCombination RowCapWithPyarrow), w)))"
  using row_cap_ipc [OF assms(1), of E w] row_cap_parquet [OF assms(2), of E w] by blast

theorem row_cap_truthiness_witness:
  "read_ipc sample_env ((ipc_defaults sample_env (BinaryIO 3))\<lparr>b_n_rows := Some 0\<rparr>) world0
     = read_ipc sample_env
         ((ipc_defaults sample_env (BinaryIO 3))\<lparr>b_n_rows := Some 0, b_n_rows := None\<rparr>) world0
   \<and> read_ipc sample_env ((ipc_defaults sample_env (BinaryIO 3))\<lparr>b_n_rows := Some 2\<rparr>) world0
     = (Inl (InvalidOptionCombination RowCapWithPyarrow), world0)
   \<and> read_parquet sample_env ((parquet_defaults sample_env (BinaryIO 3))\<lparr>b_n_rows := Some 0\<rparr>)
       world0
     = read_parquet sample_env
         ((parquet_defaults sample_env (BinaryIO 3))\<lparr>b_n_rows := Some 0, b_n_rows := None\<rparr>)
         world0
   \<and> read_parquet sample_env ((parquet_defaults sample_env (BinaryIO 3))\<lparr>b_n_rows := Some 2\<rparr>)
       world0
     = (Inl (InvalidOptionCombination RowCapWithPyarrow), world0)"
proof -
  let ?a0 = "(ipc_defaults sample_env (BinaryIO 3))\<lparr>b_n_rows := Some 0\<rparr>"
  let ?a2 = "(ipc_defaults sample_env (BinaryIO 3))\<lparr>b_n_rows := Some 2\<rparr>"
  let ?p0 = "(parquet_defaults sample_env (BinaryIO 3))\<lparr>b_n_rows := Some 0\<rparr>"
  let ?p2 = "(parquet_defaults sample_env (BinaryIO 3))\<lparr>b_n_rows := Some 2\<rparr>"
  have u: "b_use_pyarrow ?a0" "b_use_pyarrow ?a2" "b_use_pyarrow ?p0" "b_use_pyarrow ?p2"
    by (simp_all add: ipc_defaults_def parquet_defaults_def sample_env_def)
  have n: "b_n_rows ?a0 = Some 0" "b_n_rows ?a2 = Some 2" "b_n_rows ?p0 = Some 0"
      "b_n_rows ?p2 = Some 2"
    by simp_all
  from row_cap_truthiness [OF u(1) u(3), of sample_env world0] n
  have z: "read_ipc sample_env ?a0 world0 = read_ipc sample_env (?a0\<lparr>b_n_rows := None\<rparr>) world0"
      "read_parquet sample_env ?p0 world0
         = read_parquet sample_env (?p0\<lparr>b_n_rows := None\<rparr>) world0"
    by blast+
  from row_cap_truthiness [OF u(2) u(4), of sample_env world0] n
  have r: "read_ipc sample_env ?a2 world0 = (Inl (InvalidOptionCombination RowCapWithPyarrow), world0)"
      "read_parquet sample_env ?p2 world0
         = (Inl (InvalidOptionCombination RowCapWithPyarrow), world0)"
    by auto
  from z r show ?thesis by simp
qed

lemma row_cap_forwarded:
  assumes "\<not> b_use_pyarrow a"
    and "resolve E (b_file a) (listify (b_storage_options a)) w = (Inr (c, data), w2)"
  shows "read_ipc E a w
      = (raised (DataFrame_read_ipc E data (b_columns a) (native_projection a) (b_n_rows a)),
         leave c (log (NativeReadIpc data (b_columns a) (native_projection a) (b_n_rows a)) w2))"
  using assms by (simp add: read_ipc_def with_file_def)

lemma row_cap_forwarded_parquet:
  assumes "\<not> b_use_pyarrow a"
    and "resolve E (b_file a) (listify (b_storage_options a)) w = (Inr (c, data), w2)"
  shows "read_parquet E a w
      = (raised (DataFrame_read_parquet E data (b_columns a) (native_projection a) (b_n_rows a)),
         leave c (log (NativeReadParquet data (b_columns a) (native_projection a) (b_n_rows a))
                    w2))"
  using assms by (simp add: read_parquet_def with_file_def)

text \<open>
  Claim C8 fails on the code at \<^verbatim>\<open>n_rows=0\<close>: with \<^verbatim>\<open>use_pyarrow=True\<close> the row cap of zero rows
  is not rejected; the source is resolved, the pyarrow reader is called without a limit
  and its whole table (three columns here, rows uncut) is returned. The docstrings of both
  functions say of \<^verbatim>\<open>n_rows\<close>: "Only valid when \<^verbatim>\<open>use_pyarrow=False\<close>", and \<^verbatim>\<open>read_csv\<close>
  tests \<^verbatim>\<open>n_rows is None\<close>.
\<close>

theorem row_cap_zero_accepted:
  "read_ipc sample_env
     \<lparr>b_file = Str ''t.ipc'', b_columns = None, b_projection = None, b_n_rows = Some 0,
      b_use_pyarrow = True, b_memory_map = True, b_storage_options = None\<rparr> world0
     = (Inr \<lparr>columns = [''a'', ''b'', ''c''], payload = 7\<rparr>,
        \<lparr>closed = {},
         trace = [Prepare (Str ''t.ipc'') [], PaFeatherRead (Given (Str ''t.ipc'')) True None]\<rparr>)
   \<and> read_parquet sample_env
     \<lparr>b_file = Str ''t.parquet'', b_columns = None, b_projection = None, b_n_rows = Some 0,
      b_use_pyarrow = True, b_memory_map = True, b_storage_options = None, kwargs = []\<rparr> world0
     = (Inr \<lparr>columns = [''a'', ''b'', ''c''], payload = 7\<rparr>,
        \<lparr>closed = {},
         trace = [Prepare (Str ''t.parquet'') [],
                  PaParquetRead (Given (Str ''t.parquet'')) True None []]\<rparr>)"
  by (simp add: read_ipc_def read_parquet_def truthy_int_def with_file_def resolve_def
        prepare_file_arg_def enter_def leave_def log_def sample_env_def world0_def listify_def
        startswith_def import_table_def from_arrow_def pa_selector_def truthy_sel_def)

section \<open>Empty bytes in the columnar readers\<close>

lemma read_ipc_error:
  assumes "fst (read_ipc E a w) = Inl e"
  shows "e = InvalidOptionCombination RowCapWithPyarrow \<or> e = MissingOptionalDependency
         \<or> e = ClosedFile \<or> (\<exists>n. e = CollaboratorError n)"
proof (cases "b_use_pyarrow a \<and> truthy_int (b_n_rows a)")
  case True
  then show ?thesis using assms by (simp add: read_ipc_def)
next
  case False
  then have "fst (with_file E (b_file a) (listify (b_storage_options a))
      (\<lambda>data w'.
         if b_use_pyarrow a then
           (if \<not> PYARROW_AVAILABLE E then (Inl MissingOptionalDependency, w')
            else (import_table (pa_feather_read_table E data (b_memory_map a) (pa_selector a)),
                  log (PaFeatherRead data (b_memory_map a) (pa_selector a)) w'))
         else (raised (DataFrame_read_ipc E data (b_columns a) (native_projection a) (b_n_rows a)),
               log (NativeReadIpc data (b_columns a) (native_projection a) (b_n_rows a)) w'))
      w) = Inl e"
    using assms by (auto simp: read_ipc_def)
  from with_file_error [OF this] show ?thesis
    by (auto split: if_splits dest: import_table_error raised_error)
qed

lemma read_parquet_error:
  assumes "fst (read_parquet E a w) = Inl e"
  shows "e = InvalidOptionCombination RowCapWithPyarrow \<or> e = MissingOptionalDependency
         \<or> e = ClosedFile \<or> (\<exists>n. e = CollaboratorError n)"
proof (cases "b_use_pyarrow a \<and> truthy_int (b_n_rows a)")
  case True
  then show ?thesis using assms by (simp add: read_parquet_def)
next
  case False
  then have "fst (with_file E (b_file a) (listify (b_storage_options a))
      (\<lambda>source_prep w'.
         if b_use_pyarrow a then
           (if \<not> PYARROW_AVAILABLE E then (Inl MissingOptionalDependency, w')
            else (import_table (pa_parquet_read_table E source_prep (b_memory_map a)
                                  (pa_selector a) (kwargs a)),
                  log (PaParquetRead source_prep (b_memory_map a) (pa_selector a) (kwargs a)) w'))
         else (raised (DataFrame_read_parquet E source_prep (b_columns a) (native_projection a)
                         (b_n_rows a)),
               log (NativeReadParquet source_prep (b_columns a) (native_projection a)
                      (b_n_rows a)) w'))
      w) = Inl e"
    using assms by (auto simp: read_parquet_def)
  from with_file_error [OF this] show ?thesis
    by (auto split: if_splits dest: import_table_error raised_error)
qed

text \<open>
  Claim C10, as amended. \<^verbatim>\<open>read_ipc\<close> and \<^verbatim>\<open>read_parquet\<close> have no test for an empty \<^verbatim>\<open>bytes\<close>
  value: with such an input neither fails with \<open>InvalidInput\<close>. The resolver takes its
  last branch (\<^verbatim>\<open>managed_file(file)\<close>, line 123), whose context yields the empty value
  itself. Unless the call is rejected for its row cap (\<^verbatim>\<open>use_pyarrow=True\<close> with an \<^verbatim>\<open>n_rows\<close>
  that counts as true), the source is resolved and the empty value is handed unchanged to
  the reader: to pyarrow's where \<^verbatim>\<open>use_pyarrow\<close> is set and pyarrow is installed (where it
  is not installed, the call fails with \<open>MissingOptionalDependency\<close> after the
  resolution), to the native one where \<^verbatim>\<open>use_pyarrow\<close> is not set.
\<close>

theorem empty_bytes_columnar:
  assumes "b_file a = Bytes []" and "b_file p = Bytes []"
  shows "prepare_file_arg E (Bytes []) kw w
           = (Inr (ManagedFile (Bytes [])), log (Prepare (Bytes []) kw) w)
    \<and> enter E (ManagedFile (Bytes [])) w = (Inr (Given (Bytes [])), w)
    \<and> fst (read_ipc E a w) \<noteq> Inl InvalidInput
    \<and> fst (read_parquet E p w) \<noteq> Inl InvalidInput
    \<and> (\<not> (b_use_pyarrow a \<and> truthy_int (b_n_rows a)) \<longrightarrow>
         read_ipc E a w =
           (if b_use_pyarrow a then
              (if \<not> PYARROW_AVAILABLE E then
                 (Inl MissingOptionalDependency,
                  log (Prepare (Bytes []) (listify (b_storage_options a))) w)
               else
                 (import_table (pa_feather_read_table E (Given (Bytes [])) (b_memory_map a)
                                  (pa_selector a)),
                  log (PaFeatherRead (Given (Bytes [])) (b_memory_map a) (pa_selector a))
                    (log (Prepare (Bytes []) (listify (b_storage_options a))) w)))
            else
              (raised (DataFrame_read_ipc E (Given (Bytes [])) (b_columns a)
                         (native_projection a) (b_n_rows a)),
               log (NativeReadIpc (Given (Bytes [])) (b_columns a) (native_projection a)
                      (b_n_rows a))
                 (log (Prepare (Bytes []) (listify (b_storage_options a))) w))))
    \<and> (\<not> (b_use_pyarrow p \<and> truthy_int (b_n_rows p)) \<longrightarrow>
         read_parquet E p w =
           (if b_use_pyarrow p then
              (if \<not> PYARROW_AVAILABLE E then
                 (Inl MissingOptionalDependency,
                  log (Prepare (Bytes []) (listify (b_storage_options p))) w)
               else
                 (import_table (pa_parquet_read_table E (Given (Bytes [])) (b_memory_map p)
                                  (pa_selector p) (kwargs p)),
                  log (PaParquetRead (Given (Bytes [])) (b_memory_map p) (pa_selector p)
                         (kwargs p))
                    (log (Prepare (Bytes []) (listify (b_storage_options p))) w)))
            else
              (raised (DataFrame_read_parquet E (Given (Bytes [])) (b_columns p)
                         (native_projection p) (b_n_rows p)),
               log (NativeReadParquet (Given (Bytes [])) (b_columns p) (native_projection p)
                      (b_n_rows p))
                 (log (Prepare (Bytes []) (listify (b_storage_options p))) w))))"
proof (intro conjI impI)
  show "prepare_file_arg E (Bytes []) kw w
          = (Inr (ManagedFile (Bytes [])), log (Prepare (Bytes []) kw) w)"
    by (simp add: prepare_file_arg_def)
  show "enter E (ManagedFile (Bytes [])) w = (Inr (Given (Bytes [])), w)"
    by (simp add: enter_def)
  show "fst (read_ipc E a w) \<noteq> Inl InvalidInput"
    using read_ipc_error [of E a w InvalidInput] by auto
  show "fst (read_parquet E p w) \<noteq> Inl InvalidInput"
    using read_parquet_error [of E p w InvalidInput] by auto
next
  assume "\<not> (b_use_pyarrow a \<and> truthy_int (b_n_rows a))"
  then show "read_ipc E a w =
           (if b_use_pyarrow a then
              (if \<not> PYARROW_AVAILABLE E then
                 (Inl MissingOptionalDependency,
                  log (Prepare (Bytes []) (listify (b_storage_options a))) w)
               else
                 (import_table (pa_feather_read_table E (Given (Bytes [])) (b_memory_map a)
                                  (pa_selector a)),
                  log (PaFeatherRead (Given (Bytes [])) (b_memory_map a) (pa_selector a))
                    (log (Prepare (Bytes []) (listify (b_storage_options a))) w)))
            else
              (raised (DataFrame_read_ipc E (Given (Bytes [])) (b_columns a)
                         (native_projection a) (b_n_rows a)),
               log (NativeReadIpc (Given (Bytes [])) (b_columns a) (native_projection a)
                      (b_n_rows a))
                 (log (Prepare (Bytes []) (listify (b_storage_options a))) w)))"
    using assms(1) by (simp add: read_ipc_def with_file_def resolve_bytes leave_def)
next
  assume "\<not> (b_use_pyarrow p \<and> truthy_int (b_n_rows p))"
  then show "read_parquet E p w =
           (if b_use_pyarrow p then
              (if \<not> PYARROW_AVAILABLE E then
                 (Inl MissingOptionalDependency,
                  log (Prepare (Bytes []) (listify (b_storage_options p))) w)
               else
                 (import_table (pa_parquet_read_table E (Given (Bytes [])) (b_memory_map p)
                                  (pa_selector p) (kwargs p)),
                  log (PaParquetRead (Given (Bytes [])) (b_memory_map p) (pa_selector p)
                         (kwargs p))
                    (log (Prepare (Bytes []) (listify (b_storage_options p))) w)))
            else
              (raised (DataFrame_read_parquet E (Given (Bytes [])) (b_columns p)
                         (native_projection p) (b_n_rows p)),
               log (NativeReadParquet (Given (Bytes [])) (b_columns p) (native_projection p)
                      (b_n_rows p))
                 (log (Prepare (Bytes []) (listify (b_storage_options p))) w)))"
    using assms(2) by (simp add: read_parquet_def with_file_def resolve_bytes leave_def)
qed

theorem empty_bytes_columnar_witness:
  "read_ipc sample_env ((ipc_defaults sample_env (Bytes []))\<lparr>b_use_pyarrow := False\<rparr>) world0
     = (Inr \<lparr>columns = [''a'', ''b'', ''c''], payload = 7\<rparr>,
        \<lparr>closed = {},
         trace = [Prepare (Bytes []) [], NativeReadIpc (Given (Bytes [])) None None None]\<rparr>)
   \<and> read_parquet sample_env (parquet_defaults sample_env (Bytes [])) world0
     = (Inr \<lparr>columns = [''a'', ''b'', ''c''], payload = 7\<rparr>,
        \<lparr>closed = {},
         trace = [Prepare (Bytes []) [], PaParquetRead (Given (Bytes [])) True None []]\<rparr>)"
  using empty_bytes_columnar [of "(ipc_defaults sample_env (Bytes []))\<lparr>b_use_pyarrow := False\<rparr>"
      "parquet_defaults sample_env (Bytes [])" sample_env "[]" world0]
  by (simp add: ipc_defaults_def parquet_defaults_def sample_env_def world0_def log_def
        truthy_int_def listify_def raised_def import_table_def from_arrow_def
        native_projection_def pa_selector_def truthy_sel_def)

text \<open>
  Claim C10 as it is stated does not hold for every call with an empty \<^verbatim>\<open>bytes\<close> value: the
  rejection of a row cap (lines 614-618 and 686-690) comes before the resolver. With
  \<^verbatim>\<open>n_rows=5\<close> and the default \<^verbatim>\<open>use_pyarrow\<close> where pyarrow is installed, both readers fail
  with the trace as it was, empty: the value is not resolved and no reader receives it.
\<close>

theorem empty_bytes_columnar_counterexample:
  "b_use_pyarrow (ipc_defaults sample_env (Bytes [])) \<and> trace world0 = []
   \<and> read_ipc sample_env ((ipc_defaults sample_env (Bytes []))\<lparr>b_n_rows := Some 5\<rparr>) world0
      = (Inl (InvalidOptionCombination RowCapWithPyarrow), world0)
   \<and> read_parquet sample_env ((parquet_defaults sample_env (Bytes []))\<lparr>b_n_rows := Some 5\<rparr>)
        world0
      = (Inl (InvalidOptionCombination RowCapWithPyarrow), world0)"
  by (simp add: read_ipc_def read_parquet_def ipc_defaults_def parquet_defaults_def
        sample_env_def world0_def truthy_int_def)

section \<open>Release of the source\<close>

lemma read_csv_closed:
  "closed (snd (read_csv E a w)) = closed w
   \<or> (\<exists>h. file_in a = BytesIO h \<and> closed (snd (read_csv E a w)) = insert h (closed w))"
proof -
  have n: "closed (snd (read_csv_native E a w)) = closed w
      \<or> (\<exists>h. file_in a = BytesIO h \<and> closed (snd (read_csv_native E a w)) = insert h (closed w))"
  proof (cases "reconcile a")
    case (Inl e)
    then show ?thesis by (simp add: read_csv_native_def)
  next
    case (Inr dt)
    let ?body = "\<lambda>data w'. (raised (DataFrame_read_csv E (native_csv_call a data dt)),
                                log (NativeReadCsv (native_csv_call a data dt)) w')"
    have "snd (read_csv_native E a w)
        = snd (with_file E (file_in a) (listify (storage_options a)) ?body w)"
      using Inr by (simp add: read_csv_native_def split: prod.splits sum.splits)
    moreover have "closed (snd (with_file E (file_in a) (listify (storage_options a)) ?body w))
        = (case file_in a of BytesIO h \<Rightarrow> insert h (closed w) | _ \<Rightarrow> closed w)"
      by (rule with_file_closed) (simp add: closed_log)
    ultimately show ?thesis by (cases "file_in a") simp_all
  qed
  have p: "closed (snd (read_csv_pyarrow E a w)) = closed w
      \<or> (\<exists>h. file_in a = BytesIO h \<and> closed (snd (read_csv_pyarrow E a w)) = insert h (closed w))"
  proof (cases "csv_include_columns a")
    case (Inl e)
    then show ?thesis by (simp add: read_csv_pyarrow_def)
  next
    case (Inr inc)
    let ?body = "\<lambda>data w'. (raised (pa_csv_read_csv E (pa_csv_call a data inc)),
                                log (PaCsvRead (pa_csv_call a data inc)) w')"
    have "snd (read_csv_pyarrow E a w)
        = snd (with_file E (file_in a) (listify (storage_options a)) ?body w)"
      using Inr by (simp add: read_csv_pyarrow_def split: prod.splits sum.splits)
    moreover have "closed (snd (with_file E (file_in a) (listify (storage_options a)) ?body w))
        = (case file_in a of BytesIO h \<Rightarrow> insert h (closed w) | _ \<Rightarrow> closed w)"
      by (rule with_file_closed) (simp add: closed_log)
    ultimately show ?thesis by (cases "file_in a") simp_all
  qed
  have "snd (read_csv E a w) = w \<or> snd (read_csv E a w) = snd (read_csv_pyarrow E a w)
      \<or> snd (read_csv E a w) = snd (read_csv_native E a w)"
    by (simp add: read_csv_def check_columns_eq)
  with n p show ?thesis by auto
qed

lemma read_ipc_closed:
  "closed (snd (read_ipc E a w))
     = (if b_use_pyarrow a \<and> truthy_int (b_n_rows a) then closed w
        else case b_file a of BytesIO h \<Rightarrow> insert h (closed w) | _ \<Rightarrow> closed w)"
proof (cases "b_use_pyarrow a \<and> truthy_int (b_n_rows a)")
  case True
  then show ?thesis by (simp add: read_ipc_def)
next
  case False
  then show ?thesis
    unfolding read_ipc_def
    by (simp only: if_False) (rule with_file_closed, simp add: closed_log)
qed

lemma read_parquet_closed:
  "closed (snd (read_parquet E a w))
     = (if b_use_pyarrow a \<and> truthy_int (b_n_rows a) then closed w
        else case b_file a of BytesIO h \<Rightarrow> insert h (closed w) | _ \<Rightarrow> closed w)"
proof (cases "b_use_pyarrow a \<and> truthy_int (b_n_rows a)")
  case True
  then show ?thesis by (simp add: read_parquet_def)
next
  case False
  then show ?thesis
    unfolding read_parquet_def
    by (simp only: if_False) (rule with_file_closed, simp add: closed_log)
qed

text \<open>
  Claim C6 fails on the code for the in-memory byte buffer. \<^verbatim>\<open>_prepare_file_arg\<close> returns a
  \<^verbatim>\<open>BytesIO\<close> as it is (line 108), not wrapped in \<^verbatim>\<open>managed_file\<close> as the open stream of the
  last branch is (line 123), and the \<^verbatim>\<open>with\<close> statement of the reader closes what it was
  given: after \<^verbatim>\<open>read_csv\<close>, \<^verbatim>\<open>read_ipc\<close> or \<^verbatim>\<open>read_parquet\<close> has returned its table, the
  caller's buffer (handle 5 here, open before the call) is closed. For an open binary
  stream with the same handle nothing is closed.
\<close>

theorem bytesio_closed_by_read:
  "5 \<notin> closed world0
   \<and> read_csv sample_env (csv_defaults (BytesIO 5)) world0
     = (Inr \<lparr>columns = [''a'', ''b'', ''c''], payload = 7\<rparr>,
        \<lparr>closed = {5},
         trace = [Prepare (BytesIO 5) [],
                  NativeReadCsv (native_csv_call (csv_defaults (BytesIO 5)) (Given (BytesIO 5))
                                   None)]\<rparr>)
   \<and> closed (snd (read_ipc sample_env (ipc_defaults sample_env (BytesIO 5)) world0)) = {5}
   \<and> closed (snd (read_parquet sample_env (parquet_defaults sample_env (BytesIO 5)) world0)) = {5}
   \<and> closed (snd (read_csv sample_env (csv_defaults (BinaryIO 5)) world0)) = {}"
  by (simp add: read_csv_def read_csv_native_def reconcile_def read_ipc_def read_parquet_def
        with_file_def resolve_def prepare_file_arg_def enter_def leave_def log_def
        csv_defaults_def ipc_defaults_def parquet_defaults_def sample_env_def world0_def
        sample_native_csv_def native_csv_call_def raised_def import_table_def from_arrow_def
        truthy_def truthy_int_def listify_def)

end
